theory Spec2Isabelle
  imports Main
begin

section \<open>JavaScript values that the webhook server handles\<close>

text \<open>
  The server (class \<open>WebhookServer\<close>) receives request bodies that the JSON body parser
  has already turned into JavaScript values.

  A number that \<open>JSON.parse\<close> yields is a finite double or an infinity (from a literal such as
  \<open>1e999\<close>). A finite double is given by its shortest decimal form, the one the language
  definition prints numbers from: \<open>Finite neg s n\<close> is \<open>s\<close> times ten to the power \<open>n - k\<close>, with \<open>k\<close> the
  number of digits of \<open>s\<close>, negated when \<open>neg\<close> holds; \<open>s = 0\<close> is zero.

  A string is the list of the bytes of its UTF-8 form; a surrogate code unit without its
  partner, which UTF-8 proper leaves out, is the three bytes of its own code point. An
  object is the list of its own properties in enumeration order (keys are unique).
\<close>

datatype js_number = Finite bool nat int | Infinite bool

datatype json =
    JNull
  | JBool bool
  | JNum js_number
  | JStr string
  | JArr "json list"
  | JObj "(string \<times> json) list"

text \<open>
  A thrown value: an \<open>Error\<close> instance with its \<open>message\<close>, or anything else
  (\<open>error instanceof Error\<close> is false).
\<close>

datatype js_thrown = JsError string | JsOther

subsection \<open>Truthiness and \<open>||\<close>\<close>

text \<open>
  \<open>a || b\<close> yields \<open>a\<close> when \<open>a\<close> is truthy. Of the values a parsed body can hold,
  \<open>null\<close>, \<open>false\<close>, zero and the empty string are falsy; \<open>undefined\<close> (a missing
  property, \<open>None\<close>) is falsy too.
\<close>

fun is_zero :: "js_number \<Rightarrow> bool" where
  "is_zero (Finite neg s n) = (s = 0)"
| "is_zero (Infinite neg) = False"

fun truthy :: "json \<Rightarrow> bool" where
  "truthy JNull = False"
| "truthy (JBool b) = b"
| "truthy (JNum x) = (\<not> is_zero x)"
| "truthy (JStr s) = (s \<noteq> [])"
| "truthy (JArr xs) = True"
| "truthy (JObj kvs) = True"

fun truthy_opt :: "json option \<Rightarrow> bool" where
  "truthy_opt None = False"
| "truthy_opt (Some v) = truthy v"

text \<open>Truthiness of an environment variable or an optional string field.\<close>

fun truthy_str :: "string option \<Rightarrow> bool" where
  "truthy_str None = False"
| "truthy_str (Some s) = (s \<noteq> [])"

subsection \<open>Property access\<close>

text \<open>
  \<open>webhookData.message\<close>: reading a property of \<open>undefined\<close> or \<open>null\<close> throws a
  \<open>TypeError\<close>; an object yields its own property or \<open>undefined\<close>; arrays, strings,
  numbers and booleans have none of the properties the handler reads
  (\<open>message\<close>, \<open>text\<close>, \<open>user\<close>, \<open>userInfo\<close>).
\<close>

definition type_error_message :: "string \<Rightarrow> string \<Rightarrow> string" where
  "type_error_message what k =
     ''Cannot read properties of '' @ what @ '' (reading '' @ [CHR 0x27] @ k @ [CHR 0x27] @ '')''"

fun get_prop :: "json option \<Rightarrow> string \<Rightarrow> js_thrown + json option" where
  "get_prop None k = Inl (JsError (type_error_message ''undefined'' k))"
| "get_prop (Some JNull) k = Inl (JsError (type_error_message ''null'' k))"
| "get_prop (Some (JObj kvs)) k = Inr (map_of kvs k)"
| "get_prop (Some v) k = Inr None"

subsection \<open>\<open>JSON.stringify\<close> with one argument\<close>

definition hex_digit :: "nat \<Rightarrow> char" where
  "hex_digit d = ''0123456789abcdef'' ! d"

fun show_nat :: "nat \<Rightarrow> string" where
  "show_nat n = (if n < 10 then [hex_digit n] else show_nat (n div 10) @ [hex_digit (n mod 10)])"

declare show_nat.simps [simp del]

text \<open>
  \<open>Number::toString\<close> for a positive finite number with digits \<open>s\<close> and exponent \<open>n\<close>: plain
  digits up to 21 integer digits, a decimal point inside or up to six zeros in front of the
  digits, the exponent form otherwise.
\<close>

definition positive_to_string :: "nat \<Rightarrow> int \<Rightarrow> string" where
  "positive_to_string s n =
     (let ds = show_nat s; k = int (length ds) in
      if k \<le> n \<and> n \<le> 21 then ds @ replicate (nat (n - k)) CHR ''0''
      else if 0 < n \<and> n \<le> 21 then take (nat n) ds @ ''.'' @ drop (nat n) ds
      else if - 6 < n \<and> n \<le> 0 then ''0.'' @ replicate (nat (- n)) CHR ''0'' @ ds
      else
        (let e = n - 1;
             es = (if e < 0 then ''-'' else ''+'') @ show_nat (nat \<bar>e\<bar>)
         in if k = 1 then ds @ ''e'' @ es
            else take 1 ds @ ''.'' @ drop 1 ds @ ''e'' @ es))"

fun Number_toString :: "js_number \<Rightarrow> string" where
  "Number_toString (Finite neg s n) =
     (if s = 0 then ''0''
      else (if neg then ''-'' else []) @ positive_to_string s n)"
| "Number_toString (Infinite neg) = (if neg then ''-Infinity'' else ''Infinity'')"

text \<open>\<open>JSON.stringify\<close> prints a finite number as \<open>Number::toString\<close> does, any other as \<open>null\<close>.\<close>

fun stringify_number :: "js_number \<Rightarrow> string" where
  "stringify_number (Finite neg s n) = Number_toString (Finite neg s n)"
| "stringify_number (Infinite neg) = ''null''"

text \<open>
  \<open>QuoteJSONString\<close>: the two-character escapes; a backslash, \<open>u\<close> and four hexadecimal
  digits for the other control characters and for a surrogate without its partner; every
  other character as it is.
\<close>

definition unicode_escape :: "nat \<Rightarrow> string" where
  "unicode_escape cp =
     [CHR 0x5C, CHR ''u'', hex_digit (cp div 4096 mod 16), hex_digit (cp div 256 mod 16),
      hex_digit (cp div 16 mod 16), hex_digit (cp mod 16)]"

definition quote_char :: "char \<Rightarrow> string" where
  "quote_char c =
     (if c = CHR 0x22 then [CHR 0x5C, CHR 0x22]
      else if c = CHR 0x5C then [CHR 0x5C, CHR 0x5C]
      else if c = CHR 0x08 then [CHR 0x5C, CHR ''b'']
      else if c = CHR 0x09 then [CHR 0x5C, CHR ''t'']
      else if c = CHR 0x0A then [CHR 0x5C, CHR ''n'']
      else if c = CHR 0x0C then [CHR 0x5C, CHR ''f'']
      else if c = CHR 0x0D then [CHR 0x5C, CHR ''r'']
      else if (of_char c :: nat) < 32 then unicode_escape (of_char c)
      else [c])"

text \<open>
  The bytes \<open>ED\<close>, \<open>A0\<close> to \<open>BF\<close> and one more are the code point of a lone surrogate,
  \<open>D800\<close> to \<open>DFFF\<close>.
\<close>

fun quote_chars :: "string \<Rightarrow> string" where
  "quote_chars (c # d # e # cs) =
     (if c = CHR 0xED \<and> 160 \<le> (of_char d :: nat)
      then unicode_escape (53248 + (of_char d mod 64) * 64 + of_char e mod 64) @ quote_chars cs
      else quote_char c @ quote_chars (d # e # cs))"
| "quote_chars (c # cs) = quote_char c @ quote_chars cs"
| "quote_chars [] = []"

definition quote :: "string \<Rightarrow> string" where
  "quote s = CHR 0x22 # quote_chars s @ [CHR 0x22]"

fun JSON_stringify :: "json \<Rightarrow> string"
  and stringify_elements :: "json list \<Rightarrow> string"
  and stringify_members :: "(string \<times> json) list \<Rightarrow> string" where
  "JSON_stringify JNull = ''null''"
| "JSON_stringify (JBool b) = (if b then ''true'' else ''false'')"
| "JSON_stringify (JNum x) = stringify_number x"
| "JSON_stringify (JStr s) = quote s"
| "JSON_stringify (JArr xs) = ''['' @ stringify_elements xs @ '']''"
| "JSON_stringify (JObj kvs) = ''{'' @ stringify_members kvs @ ''}''"
| "stringify_elements [] = []"
| "stringify_elements [x] = JSON_stringify x"
| "stringify_elements (x # y # ys) = JSON_stringify x @ '','' @ stringify_elements (y # ys)"
| "stringify_members [] = []"
| "stringify_members [(k, v)] = quote k @ '':'' @ JSON_stringify v"
| "stringify_members ((k, v) # kv # kvs) =
     quote k @ '':'' @ JSON_stringify v @ '','' @ stringify_members (kv # kvs)"

section \<open>Requests, records and responses\<close>

type_synonym instant = nat \<comment> \<open>a \<open>Date\<close>: milliseconds since the epoch\<close>
type_synonym oid = nat \<comment> \<open>an identifier assigned by the document store\<close>

text \<open>
  The parts of an Express request that the handlers read. \<open>body\<close> is \<open>req.body\<close>,
  \<open>None\<close> when it is \<open>undefined\<close>; \<open>req_method\<close> is \<open>req.method\<close>; header names are in
  lower case, as Node delivers them.
\<close>

record request =
  headers :: "(string \<times> string) list"
  body :: "json option"
  query :: json
  req_method :: string
  url :: string
  ip :: "string option"

text \<open>\<open>req.get('User-Agent')\<close>\<close>

definition req_get_user_agent :: "request \<Rightarrow> string option" where
  "req_get_user_agent req = map_of (headers req) ''user-agent''"

text \<open>
  \<open>userInfo\<close> is a value taken from the payload or the object
  \<open>{ ip: req.ip, userAgent: req.get('User-Agent') }\<close>.
\<close>

datatype user_info =
    FromPayload json
  | Synthesized (ip_of: "string option") (userAgent_of: "string option")

record full_request =
  fr_headers :: "(string \<times> string) list"
  fr_body :: "json option"
  fr_query :: json
  fr_method :: string
  fr_url :: string

text \<open>Interface \<open>WebhookRequest\<close>; \<open>rec_id\<close> is its optional \<open>_id\<close>.\<close>

record WebhookRequest =
  rec_id :: "oid option"
  message :: json
  userInfo :: user_info
  timestamp :: instant
  fullRequest :: full_request

text \<open>
  A response: the status and the object handed to \<open>res.json\<close>, whose serialisation
  leaves out every property that is \<open>undefined\<close>.
\<close>

datatype res_val = RBool bool | RStr string | RDate instant | RId oid | RUndefined

record response =
  status :: nat
  json_body :: "(string \<times> res_val) list"

definition res_json :: "nat \<Rightarrow> (string \<times> res_val) list \<Rightarrow> response" where
  "res_json st props = \<lparr>status = st, json_body = filter (\<lambda>kv. snd kv \<noteq> RUndefined) props\<rparr>"

definition field :: "response \<Rightarrow> string \<Rightarrow> res_val option" where
  "field r k = map_of (json_body r) k"

section \<open>The process and the document store\<close>

type_synonym index_spec = "(string \<times> int) list"

record collection =
  indexes :: "index_spec list"
  docs :: "WebhookRequest list"

text \<open>A \<open>MongoClient\<close>: the connection string and \<open>mongoOptions.auth\<close>.\<close>

record mongo_client =
  c_url :: string
  c_auth :: "(string \<times> string) option"

text \<open>The calls the server makes to the driver; a database is named, a collection is
  named by its database and its own name.\<close>

datatype mongo_call =
    NewClient mongo_client
  | Connect mongo_client
  | DbHandle string
  | ListCollections string string
  | CreateCollection string string
  | CreateIndex string string index_spec
  | InsertOne string string
  | Close

datatype log_arg = LStr string | LJson "json option" | LErr js_thrown | LOid oid

datatype log_entry = Log "log_arg list" | LogError "log_arg list"

text \<open>
  Everything outside the class: the environment variables, the clock that \<open>new Date()\<close>
  reads, the collections of the store, which driver calls throw (and what), the counter
  the store's identifiers come from (the store hands out each identifier once), the calls
  made so far, the console and the exit code once \<open>process.exit\<close> was called.
\<close>

record world =
  env :: "string \<Rightarrow> string option"
  clock :: instant
  colls :: "string \<times> string \<Rightarrow> collection option"
  faults :: "mongo_call \<Rightarrow> js_thrown option"
  oid_counter :: nat
  driver_calls :: "mongo_call list"
  console :: "log_entry list"
  exit_code :: "int option"
  listening :: bool

definition console_log :: "log_arg list \<Rightarrow> world \<Rightarrow> world" where
  "console_log args w = w\<lparr>console := console w @ [Log args]\<rparr>"

definition console_error :: "log_arg list \<Rightarrow> world \<Rightarrow> world" where
  "console_error args w = w\<lparr>console := console w @ [LogError args]\<rparr>"

text \<open>A driver call is recorded; it throws when the world says so.\<close>

definition driver :: "mongo_call \<Rightarrow> world \<Rightarrow> js_thrown option \<times> world" where
  "driver c w = (faults w c, w\<lparr>driver_calls := driver_calls w @ [c]\<rparr>)"

definition empty_collection :: collection where
  "empty_collection = \<lparr>indexes = [], docs = []\<rparr>"

definition coll_or_empty :: "world \<Rightarrow> string \<times> string \<Rightarrow> collection" where
  "coll_or_empty w k = (case colls w k of None \<Rightarrow> empty_collection | Some c \<Rightarrow> c)"

text \<open>\<open>db.listCollections({ name }).toArray()\<close>: the names of the matching collections.\<close>

definition listCollections :: "string \<Rightarrow> string \<Rightarrow> world \<Rightarrow> (js_thrown + string list) \<times> world" where
  "listCollections d name w =
     (case driver (ListCollections d name) w of
        (Some e, w') \<Rightarrow> (Inl e, w')
      | (None, w') \<Rightarrow> (Inr (case colls w' (d, name) of None \<Rightarrow> [] | Some c \<Rightarrow> [name]), w'))"

text \<open>\<open>db.createCollection(name)\<close> refuses a name that exists.\<close>

definition createCollection :: "string \<Rightarrow> string \<Rightarrow> world \<Rightarrow> js_thrown option \<times> world" where
  "createCollection d name w =
     (case driver (CreateCollection d name) w of
        (Some e, w') \<Rightarrow> (Some e, w')
      | (None, w') \<Rightarrow>
          (case colls w' (d, name) of
             Some c \<Rightarrow> (Some (JsError ''Collection already exists''), w')
           | None \<Rightarrow> (None, w'\<lparr>colls := (colls w')((d, name) \<mapsto> empty_collection)\<rparr>)))"

text \<open>\<open>collection.createIndex(spec)\<close>: an index that is there already stays as it is.\<close>

definition createIndex :: "string \<times> string \<Rightarrow> index_spec \<Rightarrow> world \<Rightarrow> js_thrown option \<times> world" where
  "createIndex c spec w =
     (case driver (CreateIndex (fst c) (snd c) spec) w of
        (Some e, w') \<Rightarrow> (Some e, w')
      | (None, w') \<Rightarrow>
          (let old = coll_or_empty w' c;
               new = (if spec \<in> set (indexes old) then old
                      else old\<lparr>indexes := indexes old @ [spec]\<rparr>)
           in (None, w'\<lparr>colls := (colls w')(c \<mapsto> new)\<rparr>)))"

text \<open>
  \<open>client.db(name)\<close> builds the \<open>Db\<close> handle; the driver refuses a name with a dot in it.
\<close>

definition db_name_error :: "string \<Rightarrow> js_thrown option" where
  "db_name_error name =
     (if CHR ''.'' \<in> set name
      then Some (JsError (''Database names cannot contain the character ''
                          @ [CHR 0x27, CHR ''.'', CHR 0x27]))
      else None)"

definition client_db :: "string \<Rightarrow> world \<Rightarrow> js_thrown option \<times> world" where
  "client_db name w =
     (case driver (DbHandle name) w of
        (thrown, w') \<Rightarrow>
          (case db_name_error name of Some e \<Rightarrow> (Some e, w') | None \<Rightarrow> (thrown, w')))"

text \<open>
  \<open>collection.insertOne(doc)\<close>. Before anything is sent, the driver writes a fresh identifier
  into the \<open>_id\<close> of the very object it was given, unless that has one: the middle component
  of the result is the caller's \<open>doc\<close> as it is after the call, whether the call throws or
  not. On success the document is stored and the identifier is the \<open>insertedId\<close> of the
  result; on failure nothing is stored.
\<close>

definition insertOne ::
  "string \<times> string \<Rightarrow> WebhookRequest \<Rightarrow> world \<Rightarrow> (js_thrown + oid) \<times> WebhookRequest \<times> world" where
  "insertOne c doc w =
     (let i = (case rec_id doc of None \<Rightarrow> oid_counter w | Some j \<Rightarrow> j);
          w0 = (case rec_id doc of None \<Rightarrow> w\<lparr>oid_counter := Suc (oid_counter w)\<rparr> | Some j \<Rightarrow> w);
          doc' = doc\<lparr>rec_id := Some i\<rparr>
      in case driver (InsertOne (fst c) (snd c)) w0 of
           (Some e, w') \<Rightarrow> (Inl e, doc', w')
         | (None, w') \<Rightarrow>
             (let old = coll_or_empty w' c;
                  new = old\<lparr>docs := docs old @ [doc']\<rparr>
              in (Inr i, doc', w'\<lparr>colls := (colls w')(c \<mapsto> new)\<rparr>)))"

section \<open>Class \<open>WebhookServer\<close>\<close>

text \<open>
  The fields of the class, apart from the Express application and the port. \<open>db\<close> is the
  \<open>Db\<close> handle (the name of the database), \<open>webhooksCollection\<close> the \<open>Collection\<close> handle
  (database and collection name); \<open>None\<close> is \<open>null\<close> or \<open>undefined\<close>.
\<close>

record server =
  mongoUrl :: "string option"
  mongoUsername :: "string option"
  mongoPassword :: "string option"
  db :: "string option"
  client :: "mongo_client option"
  webhooksCollection :: "(string \<times> string) option"

definition appPrefix :: string where
  "appPrefix = ''gpt-webhook''"

text \<open>The constructor reads the environment; the handles start as \<open>null\<close>.\<close>

definition WebhookServer :: "world \<Rightarrow> server" where
  "WebhookServer w =
     \<lparr>mongoUrl = env w ''MONGO_URL'',
      mongoUsername = env w ''MONGO_INITDB_ROOT_USERNAME'',
      mongoPassword = env w ''MONGO_INITDB_ROOT_PASSWORD'',
      db = None, client = None, webhooksCollection = None\<rparr>"

subsection \<open>\<open>GET /health\<close>\<close>

definition health :: "server \<Rightarrow> world \<Rightarrow> response" where
  "health srv w =
     res_json 200
       [(''status'', RStr ''OK''),
        (''timestamp'', RDate (clock w)),
        (''database'', RStr (if db srv \<noteq> None then ''connected'' else ''not connected''))]"

definition notFound :: response where
  "notFound = res_json 404 [(''error'', RStr ''Endpoint not found'')]"

subsection \<open>\<open>handleWebhook\<close>, mounted on \<open>POST /nahui-gpt/income\<close>\<close>

text \<open>
  \<open>webhookData.message || webhookData.text || JSON.stringify(webhookData)\<close>.
  The last \<open>None\<close> branch is never taken: on \<open>undefined\<close> the first read has thrown.
\<close>

definition extract_message :: "json option \<Rightarrow> js_thrown + json" where
  "extract_message webhookData =
     (case get_prop webhookData ''message'' of
        Inl e \<Rightarrow> Inl e
      | Inr m \<Rightarrow>
          if truthy_opt m then Inr (the m)
          else (case get_prop webhookData ''text'' of
                  Inl e \<Rightarrow> Inl e
                | Inr t \<Rightarrow>
                    if truthy_opt t then Inr (the t)
                    else (case webhookData of
                            None \<Rightarrow> Inl (JsError (type_error_message ''undefined'' ''message''))
                          | Some v \<Rightarrow> Inr (JStr (JSON_stringify v)))))"

text \<open>\<open>webhookData.user || webhookData.userInfo || { ip: req.ip, userAgent: req.get('User-Agent') }\<close>\<close>

definition extract_userInfo :: "request \<Rightarrow> js_thrown + user_info" where
  "extract_userInfo req =
     (case get_prop (body req) ''user'' of
        Inl e \<Rightarrow> Inl e
      | Inr u \<Rightarrow>
          if truthy_opt u then Inr (FromPayload (the u))
          else (case get_prop (body req) ''userInfo'' of
                  Inl e \<Rightarrow> Inl e
                | Inr i \<Rightarrow>
                    if truthy_opt i then Inr (FromPayload (the i))
                    else Inr (Synthesized (ip req) (req_get_user_agent req))))"

text \<open>The record built in lines 89 to 103; \<open>_id\<close> is not set yet.\<close>

definition requestRecord :: "request \<Rightarrow> world \<Rightarrow> js_thrown + WebhookRequest" where
  "requestRecord req w =
     (case extract_message (body req) of
        Inl e \<Rightarrow> Inl e
      | Inr msg \<Rightarrow>
          (case extract_userInfo req of
             Inl e \<Rightarrow> Inl e
           | Inr ui \<Rightarrow>
               Inr \<lparr>rec_id = None, message = msg, userInfo = ui, timestamp = clock w,
                    fullRequest = \<lparr>fr_headers = headers req, fr_body = body req,
                                   fr_query = query req, fr_method = req_method req,
                                   fr_url = url req\<rparr>\<rparr>))"

text \<open>
  Lines 105 to 117: the best-effort save, with its own \<open>try\<close>/\<open>catch\<close>. \<open>requestRecord\<close>
  is the object handed to \<open>insertOne\<close>, so what the driver wrote into it is there afterwards,
  also in the \<open>catch\<close>.
\<close>

definition save :: "server \<Rightarrow> WebhookRequest \<Rightarrow> world \<Rightarrow> WebhookRequest \<times> world" where
  "save srv r w =
     (case webhooksCollection srv of
        Some c \<Rightarrow>
          (case insertOne c r w of
             (Inr insertedId, r1, w') \<Rightarrow>
               (r1\<lparr>rec_id := Some insertedId\<rparr>,
                console_log [LStr ''Webhook saved to MongoDB with ID:'', LOid insertedId] w')
           | (Inl dbError, r1, w') \<Rightarrow>
               (r1, console_error [LStr ''Failed to save to MongoDB:'', LErr dbError] w'))
      | None \<Rightarrow> (r, console_log [LStr ''MongoDB not available, webhook data logged only''] w))"

text \<open>Lines 119 to 125.\<close>

definition respond_success :: "WebhookRequest \<Rightarrow> response" where
  "respond_success r =
     res_json 200
       [(''success'', RBool True),
        (''message'', RStr ''Webhook received and processed''),
        (''timestamp'', RDate (timestamp r)),
        (''id'', (case rec_id r of None \<Rightarrow> RUndefined | Some i \<Rightarrow> RId i))]"

text \<open>Lines 127 to 134: the handler's own \<open>catch\<close>.\<close>

definition respond_failure :: "js_thrown \<Rightarrow> world \<Rightarrow> response \<times> world" where
  "respond_failure error w =
     (res_json 500
        [(''success'', RBool False),
         (''message'', RStr ''Error processing webhook''),
         (''error'', RStr (case error of JsError m \<Rightarrow> m | JsOther \<Rightarrow> ''Unknown error''))],
      console_error [LStr ''Error processing webhook:'', LErr error] w)"

definition headers_json :: "(string \<times> string) list \<Rightarrow> json" where
  "headers_json hs = JObj (map (\<lambda>kv. (fst kv, JStr (snd kv))) hs)"

definition log_request :: "request \<Rightarrow> world \<Rightarrow> world" where
  "log_request req w =
     console_log [LStr ''========================'']
       (console_log [LStr ''Query:'', LJson (Some (query req))]
         (console_log [LStr ''Body:'', LJson (body req)]
           (console_log [LStr ''Headers:'', LJson (Some (headers_json (headers req)))]
             (console_log [LStr ''=== Webhook Received ===''] w))))"

definition handleWebhook :: "server \<Rightarrow> request \<Rightarrow> world \<Rightarrow> response \<times> world" where
  "handleWebhook srv req w =
     (let w1 = log_request req w in
      case requestRecord req w1 of
        Inl error \<Rightarrow> respond_failure error w1
      | Inr r \<Rightarrow> (case save srv r w1 of (r', w2) \<Rightarrow> (respond_success r', w2)))"

subsection \<open>\<open>errorHandler\<close>, the error middleware\<close>

definition errorHandler :: "js_thrown \<Rightarrow> world \<Rightarrow> response \<times> world" where
  "errorHandler error w =
     (res_json 500
        [(''success'', RBool False),
         (''message'', RStr ''Internal server error''),
         (''error'', (if env w ''NODE_ENV'' = Some ''development''
                      then (case error of JsError m \<Rightarrow> RStr m | JsOther \<Rightarrow> RUndefined)
                      else RStr ''Something went wrong''))],
      console_error [LStr ''Unhandled error:'', LErr error] w)"

subsection \<open>The route \<open>POST /nahui-gpt/income\<close> behind the body parser\<close>

text \<open>
  \<open>setupMiddleware\<close> puts \<open>express.json({ limit: '10mb' })\<close> in front of the routes and
  \<open>errorHandler\<close> behind it. The parser refuses a body of more than 10 MB (\<open>len\<close> is the
  number of bytes of the body), and it is strict unless told otherwise: a JSON text whose
  value is an object or an array becomes \<open>req.body\<close>; for any other JSON text it raises a
  \<open>SyntaxError\<close> (whose message, \<open>syntax_error\<close>, depends on the text). Express hands
  what the parser raises to the error middleware instead of the route.
\<close>

definition body_limit :: nat where
  "body_limit = 10 * 1024 * 1024"

fun strict_json :: "json \<Rightarrow> bool" where
  "strict_json (JObj kvs) = True"
| "strict_json (JArr xs) = True"
| "strict_json v = False"

definition express_json :: "nat \<Rightarrow> string \<Rightarrow> json \<Rightarrow> js_thrown + json" where
  "express_json len syntax_error v =
     (if body_limit < len then Inl (JsError ''request entity too large'')
      else if strict_json v then Inr v
      else Inl (JsError syntax_error))"

definition post_income ::
  "server \<Rightarrow> request \<Rightarrow> nat \<Rightarrow> string \<Rightarrow> json \<Rightarrow> world \<Rightarrow> response \<times> world" where
  "post_income srv req len syntax_error v w =
     (case express_json len syntax_error v of
        Inl error \<Rightarrow> errorHandler error w
      | Inr b \<Rightarrow> handleWebhook srv (req\<lparr>body := Some b\<rparr>) w)"

subsection \<open>The Persistence Adapter: \<open>connectToMongoDB\<close> and what it calls\<close>

text \<open>
  \<open>url.match(/\/([^/?]+)(\?|$)/)\<close>: at the leftmost \<open>/\<close> that is followed by a non-empty
  run of characters other than \<open>/\<close> and \<open>?\<close> which ends at a \<open>?\<close> or at the end of the
  string, the run is group 1. (The run is maximal: a shorter one is followed by a character
  of the run, which is neither \<open>?\<close> nor the end.)
\<close>

fun extractDatabaseName :: "string \<Rightarrow> string option" where
  "extractDatabaseName [] = None"
| "extractDatabaseName (c # cs) =
     (if c = CHR ''/'' then
        (let run = takeWhile (\<lambda>x. x \<noteq> CHR ''/'' \<and> x \<noteq> CHR ''?'') cs;
             rest = dropWhile (\<lambda>x. x \<noteq> CHR ''/'' \<and> x \<noteq> CHR ''?'') cs
         in if run \<noteq> [] \<and> (case rest of [] \<Rightarrow> True | r # rs \<Rightarrow> r = CHR ''?'')
            then Some run
            else extractDatabaseName cs)
      else extractDatabaseName cs)"

text \<open>\<open>this.extractDatabaseName(this.mongoUrl) || 'shared-db'\<close>\<close>

definition dbName :: "string \<Rightarrow> string" where
  "dbName u = (case extractDatabaseName u of
                 None \<Rightarrow> ''shared-db''
               | Some n \<Rightarrow> if n \<noteq> [] then n else ''shared-db'')"

text \<open>
  \<open>initializeCollections\<close> returns what it throws (if anything) beside the fields and the
  world as they are at that moment: an assignment made before a throw stays.
\<close>

definition init_failed :: "js_thrown \<Rightarrow> server \<Rightarrow> world \<Rightarrow> js_thrown option \<times> server \<times> world" where
  "init_failed error srv w =
     (Some error, srv, console_error [LStr ''Failed to initialize collections:'', LErr error] w)"

definition initializeCollections :: "server \<Rightarrow> world \<Rightarrow> js_thrown option \<times> server \<times> world" where
  "initializeCollections srv w =
     (case db srv of
        None \<Rightarrow> (None, srv, w)
      | Some d \<Rightarrow>
          (let collectionName = appPrefix @ ''-requests'' in
           case listCollections d collectionName w of
             (Inl e, w1) \<Rightarrow> init_failed e srv w1
           | (Inr collections, w1) \<Rightarrow>
               if length collections = 0 then
                 (case createCollection d collectionName w1 of
                    (Some e, w2) \<Rightarrow> init_failed e srv w2
                  | (None, w2) \<Rightarrow>
                      (let w3 = console_log [LStr (''Created collection: '' @ collectionName)] w2;
                           srv1 = srv\<lparr>webhooksCollection := Some (d, collectionName)\<rparr>
                       in case createIndex (d, collectionName) [(''timestamp'', - 1)] w3 of
                            (Some e, w4) \<Rightarrow> init_failed e srv1 w4
                          | (None, w4) \<Rightarrow>
                              (case createIndex (d, collectionName) [(''userInfo.id'', 1)] w4 of
                                 (Some e, w5) \<Rightarrow> init_failed e srv1 w5
                               | (None, w5) \<Rightarrow>
                                   (None, srv1,
                                    console_log
                                      [LStr (''Created indexes for collection: '' @ collectionName)]
                                      w5))))
               else
                 (None, srv\<lparr>webhooksCollection := Some (d, collectionName)\<rparr>,
                  console_log [LStr (''Collection already exists: '' @ collectionName)] w1)))"

text \<open>Lines 155 to 164: \<open>mongoOptions\<close>, with \<open>auth\<close> only when both fields are truthy.\<close>

definition mongoOptions :: "server \<Rightarrow> (string \<times> string) option" where
  "mongoOptions srv =
     (if truthy_str (mongoUsername srv) \<and> truthy_str (mongoPassword srv)
      then Some (the (mongoUsername srv), the (mongoPassword srv))
      else None)"

text \<open>The \<open>catch\<close> of \<open>connectToMongoDB\<close>, lines 177 to 180.\<close>

definition connect_failed :: "js_thrown \<Rightarrow> server \<Rightarrow> world \<Rightarrow> server \<times> world" where
  "connect_failed error srv w =
     (srv, console_log [LStr ''Continuing without database persistence...'']
             (console_error [LStr ''Failed to connect to MongoDB:'', LErr error] w))"

definition connectToMongoDB :: "server \<Rightarrow> world \<Rightarrow> server \<times> world" where
  "connectToMongoDB srv w =
     (if \<not> truthy_str (mongoUrl srv) then
        (srv, console_log [LStr ''No MONGO_URL provided, running without database persistence''] w)
      else
        (let u = the (mongoUrl srv);
             w1 = console_log [LStr ''Connecting to MongoDB...''] w;
             w2 = (if mongoOptions srv \<noteq> None
                   then console_log [LStr ''Using MongoDB authentication''] w1 else w1);
             c = \<lparr>c_url = u, c_auth = mongoOptions srv\<rparr>
         in case driver (NewClient c) w2 of
              (Some e, w3) \<Rightarrow> connect_failed e srv w3
            | (None, w3) \<Rightarrow>
                (let srv1 = srv\<lparr>client := Some c\<rparr> in
                 case driver (Connect c) w3 of
                   (Some e, w4) \<Rightarrow> connect_failed e srv1 w4
                 | (None, w4) \<Rightarrow>
                     (case client_db (dbName u) w4 of
                        (Some e, w5) \<Rightarrow> connect_failed e srv1 w5
                      | (None, w5) \<Rightarrow>
                          (let srv2 = srv1\<lparr>db := Some (dbName u)\<rparr> in
                           case initializeCollections srv2 w5 of
                             (Some e, srv3, w6) \<Rightarrow> connect_failed e srv3 w6
                           | (None, srv3, w6) \<Rightarrow>
                               (srv3,
                                console_log
                                  [LStr (''Successfully connected to MongoDB database: ''
                                         @ dbName u)]
                                  w6))))))"

subsection \<open>\<open>start\<close> and \<open>shutdown\<close>\<close>

text \<open>\<open>start\<close> connects, then listens (the start-up banner is left out).\<close>

definition start :: "server \<Rightarrow> world \<Rightarrow> server \<times> world" where
  "start srv w = (case connectToMongoDB srv w of (srv', w') \<Rightarrow> (srv', w'\<lparr>listening := True\<rparr>))"

definition shutdown :: "server \<Rightarrow> world \<Rightarrow> world" where
  "shutdown srv w =
     (let w1 = console_log [LStr ''Shutting down server...''] w;
          w2 = (case client srv of
                  None \<Rightarrow> w1
                | Some c \<Rightarrow>
                    (case driver Close w1 of
                       (None, w') \<Rightarrow> console_log [LStr ''MongoDB connection closed''] w'
                     | (Some error, w') \<Rightarrow>
                         console_error [LStr ''Error closing MongoDB connection:'', LErr error] w'))
      in w2\<lparr>exit_code := Some 0\<rparr>)"

subsection \<open>The variant in \<open>src/index.ts\<close>\<close>

text \<open>
  \<open>src/index.ts\<close> holds the same class without credentials, prefix and index set-up:
  its \<open>connectToMongoDB\<close> (lines 141 to 158) uses the fixed database \<open>webhook-server\<close> and
  the fixed collection \<open>webhooks\<close>. The handlers are the same in both files.
\<close>

definition connectToMongoDB_index_ts :: "server \<Rightarrow> world \<Rightarrow> server \<times> world" where
  "connectToMongoDB_index_ts srv w =
     (if \<not> truthy_str (mongoUrl srv) then
        (srv, console_log [LStr ''No MONGO_URL provided, running without database persistence''] w)
      else
        (let u = the (mongoUrl srv);
             w1 = console_log [LStr ''Connecting to MongoDB...''] w;
             c = \<lparr>c_url = u, c_auth = None\<rparr>
         in case driver (NewClient c) w1 of
              (Some e, w2) \<Rightarrow> connect_failed e srv w2
            | (None, w2) \<Rightarrow>
                (let srv1 = srv\<lparr>client := Some c\<rparr> in
                 case driver (Connect c) w2 of
                   (Some e, w3) \<Rightarrow> connect_failed e srv1 w3
                 | (None, w3) \<Rightarrow>
                     (case client_db ''webhook-server'' w3 of
                        (Some e, w4) \<Rightarrow> connect_failed e srv1 w4
                      | (None, w4) \<Rightarrow>
                          (srv1\<lparr>db := Some ''webhook-server'',
                                webhooksCollection := Some (''webhook-server'', ''webhooks'')\<rparr>,
                           console_log [LStr ''Successfully connected to MongoDB''] w4)))))"

section \<open>Notions used to state the properties\<close>

text \<open>A property of a payload that can be read without a throw.\<close>

definition payload_field :: "json \<Rightarrow> string \<Rightarrow> json option" where
  "payload_field v k = (case v of JObj kvs \<Rightarrow> map_of kvs k | _ \<Rightarrow> None)"

subsection \<open>Concrete processes\<close>

text \<open>A process without any environment variable, an empty store and no failing call.\<close>

definition sample_world :: world where
  "sample_world =
     \<lparr>env = Map.empty, clock = 1700000000000, colls = Map.empty, faults = (\<lambda>c. None),
      oid_counter = 0, driver_calls = [], console = [], exit_code = None, listening = False\<rparr>"

definition sample_request :: "json option \<Rightarrow> request" where
  "sample_request b =
     \<lparr>headers = [(''content-type'', ''application/json''), (''user-agent'', ''curl/8.5.0'')],
      body = b, query = JObj [], req_method = ''POST'', url = ''/nahui-gpt/income'',
      ip = Some ''127.0.0.1''\<rparr>"

text \<open>The same with a connection string that names the database \<open>app\<close>.\<close>

definition configured_world :: world where
  "configured_world = sample_world\<lparr>env := [''MONGO_URL'' \<mapsto> ''mongodb://localhost:27017/app'']\<rparr>"

text \<open>The server and the world after a start-up in which every call succeeded.\<close>

definition connected_server :: server where
  "connected_server = fst (start (WebhookServer configured_world) configured_world)"

definition connected_world :: world where
  "connected_world = snd (start (WebhookServer configured_world) configured_world)"

text \<open>The client connects, then \<open>listCollections\<close> throws.\<close>

definition init_fails_world :: world where
  "init_fails_world =
     configured_world\<lparr>faults := (\<lambda>c. if c = ListCollections ''app'' ''gpt-webhook-requests''
                                      then Some (JsError ''not authorized'') else None)\<rparr>"

text \<open>A connection string without a database name.\<close>

definition no_database_world :: world where
  "no_database_world = sample_world\<lparr>env := [''MONGO_URL'' \<mapsto> ''mongodb://localhost:27017'']\<rparr>"

text \<open>A production configuration.\<close>

definition production_world :: world where
  "production_world = sample_world\<lparr>env := [''NODE_ENV'' \<mapsto> ''production'']\<rparr>"

text \<open>The target collection is in the store already, without any index.\<close>

definition existing_collection_world :: world where
  "existing_collection_world =
     configured_world\<lparr>colls := [(''app'', ''gpt-webhook-requests'') \<mapsto> empty_collection]\<rparr>"

text \<open>The store is connected; afterwards every insert is refused.\<close>

definition insert_fails_world :: world where
  "insert_fails_world =
     connected_world\<lparr>faults := (\<lambda>c. if c = InsertOne ''app'' ''gpt-webhook-requests''
                                     then Some (JsError ''connection refused'') else None)\<rparr>"

text \<open>Only the user name of the credential pair is set.\<close>

definition username_only_world :: world where
  "username_only_world =
     sample_world\<lparr>env := [''MONGO_URL'' \<mapsto> ''mongodb://localhost:27017/app'',
                          ''MONGO_INITDB_ROOT_USERNAME'' \<mapsto> ''root'']\<rparr>"

section \<open>Properties\<close>

lemmas model_defs =
  handleWebhook_def log_request_def requestRecord_def extract_message_def extract_userInfo_def
  save_def insertOne_def driver_def respond_success_def respond_failure_def res_json_def
  field_def console_log_def console_error_def headers_json_def req_get_user_agent_def
  coll_or_empty_def empty_collection_def WebhookServer_def errorHandler_def health_def
  connectToMongoDB_def connect_failed_def initializeCollections_def init_failed_def
  listCollections_def createCollection_def createIndex_def mongoOptions_def dbName_def
  start_def shutdown_def appPrefix_def client_db_def db_name_error_def express_json_def
  post_income_def body_limit_def

lemmas sample_defs =
  sample_world_def sample_request_def configured_world_def connected_server_def
  connected_world_def init_fails_world_def no_database_world_def production_world_def
  existing_collection_world_def username_only_world_def insert_fails_world_def

subsection \<open>Serialisation and field extraction\<close>

lemma show_nat_nonempty: "show_nat n \<noteq> []"
  by (subst show_nat.simps) simp

lemma positive_to_string_nonempty: "positive_to_string s n \<noteq> []"
  by (simp add: positive_to_string_def Let_def show_nat_nonempty)

lemma stringify_number_nonempty: "stringify_number x \<noteq> []"
  by (cases x) (simp_all add: positive_to_string_nonempty)

lemma JSON_stringify_nonempty: "JSON_stringify v \<noteq> []"
  by (cases v) (simp_all add: stringify_number_nonempty quote_def)

text \<open>Numbers as JavaScript prints them: \<open>1e21\<close>, \<open>-1.5\<close>, \<open>2\<^sup>5\<^sup>3\<close>, \<open>1e-7\<close>, \<open>-0\<close>, \<open>1e999\<close>.\<close>

lemma stringify_number_examples:
  "stringify_number (Finite False 1 22) = ''1e+21''"
  "stringify_number (Finite True 15 1) = ''-1.5''"
  "stringify_number (Finite False 9007199254740992 16) = ''9007199254740992''"
  "stringify_number (Finite False 1 (- 6)) = ''1e-7''"
  "stringify_number (Finite True 0 0) = ''0''"
  "stringify_number (Infinite False) = ''null''"
  by (simp_all add: positive_to_string_def Let_def show_nat.simps hex_digit_def)

lemma get_prop_payload: "v \<noteq> JNull \<Longrightarrow> get_prop (Some v) k = Inr (payload_field v k)"
  by (cases v) (simp_all add: payload_field_def)

lemma truthy_opt_the: "truthy_opt x \<Longrightarrow> truthy (the x)"
  by (cases x) simp_all

lemma truthy_opt_Some: "truthy_opt x \<Longrightarrow> Some (the x) = x"
  by (cases x) simp_all

lemma extract_message_payload:
  assumes "v \<noteq> JNull"
  shows "extract_message (Some v) =
           Inr (if truthy_opt (payload_field v ''message'') then the (payload_field v ''message'')
                else if truthy_opt (payload_field v ''text'') then the (payload_field v ''text'')
                else JStr (JSON_stringify v))"
  using assms by (simp add: extract_message_def get_prop_payload)

lemma extract_message_truthy: "extract_message b = Inr m \<Longrightarrow> truthy m"
  by (auto simp: extract_message_def truthy_opt_the JSON_stringify_nonempty
           split: sum.splits if_splits option.splits)

lemma extract_message_undefined:
  "extract_message None = Inl (JsError (type_error_message ''undefined'' ''message''))"
  by (simp add: extract_message_def)

text \<open>
  The derived message of \<open>{"n": 1e21}\<close>, of a payload whose \<open>message\<close> is zero and whose
  \<open>text\<close> is a non-ASCII letter, and of an array that holds a lone surrogate.
\<close>

lemma extract_message_examples:
  "extract_message (Some (JObj [(''n'', JNum (Finite False 1 22))]))
     = Inr (JStr ([CHR ''{'', CHR 0x22, CHR ''n'', CHR 0x22] @ '':1e+21}''))"
  "extract_message (Some (JObj [(''message'', JNum (Finite False 0 0)),
                                (''text'', JStr [CHR 0xC3, CHR 0xA9])]))
     = Inr (JStr [CHR 0xC3, CHR 0xA9])"
  "extract_message (Some (JArr [JStr [CHR 0xED, CHR 0xA0, CHR 0x80]]))
     = Inr (JStr ([CHR ''['', CHR 0x22, CHR 0x5C] @ ''ud800'' @ [CHR 0x22, CHR '']'']))"
  by (simp_all add: extract_message_def positive_to_string_def Let_def show_nat.simps
        hex_digit_def quote_def quote_char_def unicode_escape_def)

lemma extract_userInfo_payload:
  "v \<noteq> JNull \<Longrightarrow> body req = Some v \<Longrightarrow> \<exists>ui. extract_userInfo req = Inr ui"
  by (simp add: extract_userInfo_def get_prop_payload)

subsection \<open>The steps of \<open>handleWebhook\<close>\<close>

lemma log_request_eq:
  "log_request req w =
     w\<lparr>console := console w @
        [Log [LStr ''=== Webhook Received ===''],
         Log [LStr ''Headers:'', LJson (Some (headers_json (headers req)))],
         Log [LStr ''Body:'', LJson (body req)],
         Log [LStr ''Query:'', LJson (Some (query req))],
         Log [LStr ''========================'']]\<rparr>"
  by (simp add: log_request_def console_log_def)

lemma log_request_sel:
  "clock (log_request req w) = clock w"
  "colls (log_request req w) = colls w"
  "faults (log_request req w) = faults w"
  "env (log_request req w) = env w"
  "oid_counter (log_request req w) = oid_counter w"
  "driver_calls (log_request req w) = driver_calls w"
  "exit_code (log_request req w) = exit_code w"
  by (simp_all add: log_request_eq)

lemma requestRecord_payload:
  assumes "body req = Some v" "v \<noteq> JNull"
  shows "\<exists>r. requestRecord req w = Inr r \<and> rec_id r = None \<and> timestamp r = clock w
           \<and> extract_message (Some v) = Inr (message r)"
proof -
  obtain ui where ui: "extract_userInfo req = Inr ui"
    using extract_userInfo_payload [OF assms(2) assms(1)] by blast
  obtain m where m: "extract_message (Some v) = Inr m"
    using extract_message_payload [OF assms(2)] by blast
  show ?thesis
    by (simp add: requestRecord_def assms(1) ui m)
qed



lemma save_insert_fails:
  assumes "webhooksCollection srv = Some c" "faults w (InsertOne (fst c) (snd c)) = Some e"
    and "rec_id r = None"
  shows "save srv r w =
           (r\<lparr>rec_id := Some (oid_counter w)\<rparr>,
            console_error [LStr ''Failed to save to MongoDB:'', LErr e]
              (w\<lparr>oid_counter := Suc (oid_counter w),
                 driver_calls := driver_calls w @ [InsertOne (fst c) (snd c)]\<rparr>))"
  using assms by (simp add: save_def insertOne_def driver_def Let_def)

lemma respond_success_fields:
  "status (respond_success r) = 200"
  "field (respond_success r) ''success'' = Some (RBool True)"
  "field (respond_success r) ''message'' = Some (RStr ''Webhook received and processed'')"
  "field (respond_success r) ''timestamp'' = Some (RDate (timestamp r))"
  "field (respond_success r) ''id'' = map_option RId (rec_id r)"
  by (simp_all add: respond_success_def res_json_def field_def split: option.splits)

lemma handleWebhook_success:
  assumes "requestRecord req (log_request req w) = Inr r"
  shows "fst (handleWebhook srv req w) = respond_success (fst (save srv r (log_request req w)))"
    and "snd (handleWebhook srv req w) = snd (save srv r (log_request req w))"
  using assms by (simp_all add: handleWebhook_def split: prod.splits)



subsection \<open>The webhook route answers 200\<close>




subsection \<open>A failed insert\<close>

text \<open>
  When the server holds a collection handle and \<open>insertOne\<close> throws, the handler logs the
  failure with \<open>console.error\<close> as its last output and still answers 200 with
  \<open>success: true\<close>; the store holds what it held before. The response has an \<open>id\<close>: the
  identifier that the driver wrote into \<open>requestRecord\<close> before the insert failed.
\<close>

lemma insert_failure_logged:
  assumes "webhooksCollection srv = Some c"
    and "faults w (InsertOne (fst c) (snd c)) = Some e"
    and "body req = Some v" and "v \<noteq> JNull"
  shows "status (fst (handleWebhook srv req w)) = 200
       \<and> field (fst (handleWebhook srv req w)) ''success'' = Some (RBool True)
       \<and> field (fst (handleWebhook srv req w)) ''id'' = Some (RId (oid_counter w))
       \<and> last (console (snd (handleWebhook srv req w)))
           = LogError [LStr ''Failed to save to MongoDB:'', LErr e]
       \<and> colls (snd (handleWebhook srv req w)) = colls w"
proof -
  let ?w1 = "log_request req w"
  obtain r where r: "requestRecord req ?w1 = Inr r" "rec_id r = None"
    using requestRecord_payload [OF assms(3,4), of ?w1] by auto
  have f: "faults ?w1 (InsertOne (fst c) (snd c)) = Some e"
    using assms(2) by (simp add: log_request_sel)
  note s = save_insert_fails [OF assms(1) f r(2)]
  show ?thesis
    by (simp add: handleWebhook_success [OF r(1)] s respond_success_fields
                  console_error_def log_request_sel)
qed

text \<open>
  Claim C3 at the input on which the code departs from it. The store is connected and the
  insert of a webhook is refused: the failure is logged, the answer is 200 with
  \<open>success: true\<close> and nothing is stored, but the response carries the \<open>id\<close> of the
  record that was not stored.
\<close>

theorem failed_insert_response_has_id:
  "webhooksCollection connected_server = Some (''app'', ''gpt-webhook-requests'')
   \<and> status (fst (handleWebhook connected_server
         (sample_request (Some (JObj [(''message'', JStr ''hi'')]))) insert_fails_world)) = 200
   \<and> field (fst (handleWebhook connected_server
         (sample_request (Some (JObj [(''message'', JStr ''hi'')]))) insert_fails_world))
        ''success'' = Some (RBool True)
   \<and> last (console (snd (handleWebhook connected_server
         (sample_request (Some (JObj [(''message'', JStr ''hi'')]))) insert_fails_world)))
       = LogError [LStr ''Failed to save to MongoDB:'', LErr (JsError ''connection refused'')]
   \<and> docs (coll_or_empty (snd (handleWebhook connected_server
         (sample_request (Some (JObj [(''message'', JStr ''hi'')]))) insert_fails_world))
        (''app'', ''gpt-webhook-requests'')) = []
   \<and> field (fst (handleWebhook connected_server
         (sample_request (Some (JObj [(''message'', JStr ''hi'')]))) insert_fails_world))
        ''id'' = Some (RId 0)"
  by (simp add: model_defs sample_defs Let_def)

subsection \<open>Health after a failed initialisation\<close>

text \<open>
  \<open>GET /health\<close> reports whether \<open>db\<close> is set. Without a connection string, and when the
  client cannot connect, \<open>db\<close> stays \<open>null\<close>.
\<close>

lemma health_database:
  "field (health srv w) ''database''
     = Some (RStr (if db srv \<noteq> None then ''connected'' else ''not connected''))"
  by (simp add: health_def res_json_def field_def)

lemma unconfigured_stays:
  "\<not> truthy_str (mongoUrl srv) \<Longrightarrow> fst (connectToMongoDB srv w) = srv"
  by (simp add: connectToMongoDB_def)

lemma refused_connection_keeps_db:
  assumes "mongoUrl srv = Some u" "u \<noteq> []"
    and "faults w (Connect \<lparr>c_url = u, c_auth = mongoOptions srv\<rparr>) = Some e"
  shows "db (fst (connectToMongoDB srv w)) = db srv"
  using assms
  by (simp add: connectToMongoDB_def driver_def Let_def connect_failed_def console_log_def
        split: option.splits)

text \<open>
  Claim C4 at the input on which the code departs from it. The client connects and
  \<open>listCollections\<close> throws: \<open>db\<close> was assigned before, no collection handle exists, the
  console says that the server continues without database persistence, and yet
  \<open>GET /health\<close> reports \<open>connected\<close>; a webhook is answered without an \<open>id\<close>.
\<close>

theorem health_connected_after_failed_init:
  "db (fst (start (WebhookServer init_fails_world) init_fails_world)) = Some ''app''
   \<and> webhooksCollection (fst (start (WebhookServer init_fails_world) init_fails_world)) = None
   \<and> console (snd (start (WebhookServer init_fails_world) init_fails_world)) =
       [Log [LStr ''Connecting to MongoDB...''],
        LogError [LStr ''Failed to initialize collections:'', LErr (JsError ''not authorized'')],
        LogError [LStr ''Failed to connect to MongoDB:'', LErr (JsError ''not authorized'')],
        Log [LStr ''Continuing without database persistence...'']]
   \<and> field (health (fst (start (WebhookServer init_fails_world) init_fails_world))
                    (snd (start (WebhookServer init_fails_world) init_fails_world))) ''database''
       = Some (RStr ''connected'')
   \<and> field (fst (handleWebhook (fst (start (WebhookServer init_fails_world) init_fails_world))
                    (sample_request (Some (JObj [(''message'', JStr ''hi'')])))
                    (snd (start (WebhookServer init_fails_world) init_fails_world)))) ''id'' = None"
  by (simp add: model_defs sample_defs Let_def)

subsection \<open>The error detail of a 500\<close>

text \<open>
  Claim C5 at the input on which the code departs from it. In a production configuration
  a request without a parsed body makes \<open>handleWebhook\<close> throw; its own \<open>catch\<close> sends
  the exception message as \<open>error\<close>, where \<open>errorHandler\<close> would send the generic string
  for the same exception.
\<close>

theorem webhook_catch_reveals_message:
  "env production_world ''NODE_ENV'' \<noteq> Some ''development''
   \<and> fst (handleWebhook (WebhookServer production_world) (sample_request None) production_world)
     = \<lparr>status = 500,
        json_body = [(''success'', RBool False), (''message'', RStr ''Error processing webhook''),
                     (''error'', RStr (type_error_message ''undefined'' ''message''))]\<rparr>
   \<and> field (fst (errorHandler (JsError (type_error_message ''undefined'' ''message''))
                   production_world)) ''error''
       = Some (RStr ''Something went wrong'')"
  by (simp add: model_defs sample_defs)

subsection \<open>The database name\<close>

text \<open>
  Claim C6 at the input on which the code departs from it. The connection string
  \<open>mongodb://localhost:27017\<close> names no database; the pattern matches the host and port
  after the second slash, so that the database is \<open>localhost:27017\<close> and the fallback
  \<open>shared-db\<close> is not used.
\<close>

theorem database_name_from_host:
  "extractDatabaseName ''mongodb://localhost:27017'' = Some ''localhost:27017''
   \<and> dbName ''mongodb://localhost:27017'' = ''localhost:27017''
   \<and> db (fst (start (WebhookServer no_database_world) no_database_world)) = Some ''localhost:27017''
   \<and> webhooksCollection (fst (start (WebhookServer no_database_world) no_database_world))
       = Some (''localhost:27017'', ''gpt-webhook-requests'')"
  by (simp add: model_defs sample_defs Let_def)

text \<open>Where a database name or a slash follows the host, the result is the expected one.\<close>

lemma database_name_examples:
  "dbName ''mongodb://localhost:27017/app'' = ''app''"
  "dbName ''mongodb://localhost:27017/app?retryWrites=true'' = ''app''"
  "dbName ''mongodb://localhost:27017/'' = ''shared-db''"
  "dbName ''mongodb://localhost:27017/?retryWrites=true'' = ''shared-db''"
  by (simp_all add: dbName_def)

subsection \<open>Shutdown\<close>

text \<open>
  Claim C9. \<open>shutdown\<close> always ends with \<open>process.exit(0)\<close>; when closing the client
  throws, the failure is logged with \<open>console.error\<close>, the exit code is 0 all the same and
  the store is left as it was.
\<close>

theorem shutdown_exits_zero:
  "exit_code (shutdown srv w) = Some 0
   \<and> (client srv \<noteq> None \<and> faults w Close = Some e \<longrightarrow>
        console (shutdown srv w) =
          console w @ [Log [LStr ''Shutting down server...''],
                       LogError [LStr ''Error closing MongoDB connection:'', LErr e]]
        \<and> colls (shutdown srv w) = colls w)"
  by (auto simp: shutdown_def Let_def driver_def console_log_def console_error_def
           split: option.splits)

theorem shutdown_exits_zero_witness:
  "client connected_server \<noteq> None
   \<and> faults (connected_world\<lparr>faults := (\<lambda>c. Some (JsError ''socket closed''))\<rparr>) Close
       = Some (JsError ''socket closed'')
   \<and> exit_code (shutdown connected_server
                  (connected_world\<lparr>faults := (\<lambda>c. Some (JsError ''socket closed''))\<rparr>)) = Some 0
   \<and> last (console (shutdown connected_server
                  (connected_world\<lparr>faults := (\<lambda>c. Some (JsError ''socket closed''))\<rparr>)))
       = LogError [LStr ''Error closing MongoDB connection:'', LErr (JsError ''socket closed'')]"
proof -
  have c: "client connected_server \<noteq> None"
    by (simp add: model_defs sample_defs Let_def)
  show ?thesis
    using c shutdown_exits_zero [of connected_server
        "connected_world\<lparr>faults := (\<lambda>c. Some (JsError ''socket closed''))\<rparr>"
        "JsError ''socket closed''"]
    by simp
qed

subsection \<open>A successful insert\<close>

lemma requestRecord_rec_id: "requestRecord req w = Inr r \<Longrightarrow> rec_id r = None"
  by (auto simp: requestRecord_def split: sum.splits)

lemma save_insert_ok:
  assumes "webhooksCollection srv = Some c" "faults w (InsertOne (fst c) (snd c)) = None"
    and "rec_id r = None"
  shows "fst (save srv r w) = r\<lparr>rec_id := Some (oid_counter w)\<rparr>"
    and "colls (snd (save srv r w)) =
           (colls w)(c \<mapsto> (coll_or_empty w c)
              \<lparr>docs := docs (coll_or_empty w c) @ [r\<lparr>rec_id := Some (oid_counter w)\<rparr>]\<rparr>)"
    and "oid_counter (snd (save srv r w)) = Suc (oid_counter w)"
    and "faults (snd (save srv r w)) = faults w"
    and "clock (snd (save srv r w)) = clock w"
  using assms
  by (simp_all add: save_def insertOne_def driver_def coll_or_empty_def console_log_def Let_def)

lemma requestRecord_clock:
  "requestRecord req w = Inr r \<Longrightarrow> requestRecord req w' = Inr (r\<lparr>timestamp := clock w'\<rparr>)"
  by (auto simp: requestRecord_def split: sum.splits)

lemma coll_or_empty_log_request:
  "coll_or_empty (log_request req w) c = coll_or_empty w c"
  by (simp add: coll_or_empty_def log_request_sel)

text \<open>One successful request: the response carries the identifier, the store the record.\<close>

lemma handleWebhook_stores:
  assumes c: "webhooksCollection srv = Some c"
    and f: "faults w (InsertOne (fst c) (snd c)) = None"
    and r: "requestRecord req (log_request req w) = Inr r"
  shows "field (fst (handleWebhook srv req w)) ''id'' = Some (RId (oid_counter w))"
    and "colls (snd (handleWebhook srv req w)) =
           (colls w)(c \<mapsto> (coll_or_empty w c)
              \<lparr>docs := docs (coll_or_empty w c) @ [r\<lparr>rec_id := Some (oid_counter w)\<rparr>]\<rparr>)"
    and "oid_counter (snd (handleWebhook srv req w)) = Suc (oid_counter w)"
    and "faults (snd (handleWebhook srv req w)) = faults w"
proof -
  let ?w1 = "log_request req w"
  have f1: "faults ?w1 (InsertOne (fst c) (snd c)) = None"
    using f by (simp add: log_request_sel)
  note s = save_insert_ok [OF c f1 requestRecord_rec_id [OF r]]
  show "field (fst (handleWebhook srv req w)) ''id'' = Some (RId (oid_counter w))"
    by (simp add: handleWebhook_success(1) [OF r] respond_success_fields s(1) log_request_sel)
  show "colls (snd (handleWebhook srv req w)) =
           (colls w)(c \<mapsto> (coll_or_empty w c)
              \<lparr>docs := docs (coll_or_empty w c) @ [r\<lparr>rec_id := Some (oid_counter w)\<rparr>]\<rparr>)"
    by (simp add: handleWebhook_success(2) [OF r] s(2) log_request_sel coll_or_empty_log_request)
  show "oid_counter (snd (handleWebhook srv req w)) = Suc (oid_counter w)"
    by (simp add: handleWebhook_success(2) [OF r] s(3) log_request_sel)
  show "faults (snd (handleWebhook srv req w)) = faults w"
    by (simp add: handleWebhook_success(2) [OF r] s(4) log_request_sel)
qed

subsection \<open>The derived message\<close>

text \<open>
  Claim C2, as the code has it. For every payload that reaches the handler (the body parser
  passes objects and arrays; anything but \<open>null\<close> will do) a record is built whose
  message is truthy (so never the empty string) and is, first match wins: the
  payload's \<open>message\<close> property if that is truthy; else its \<open>text\<close> property if that is
  truthy; else the JSON serialisation of the whole payload. This value is the message of
  the record that a successful insert stores. The response does not carry it: its
  \<open>message\<close> is always the text \<open>Webhook received and processed\<close>.
\<close>

theorem derived_message_first_truthy:
  assumes "body req = Some v" and "v \<noteq> JNull"
  shows "\<exists>r. requestRecord req (log_request req w) = Inr r
       \<and> truthy (message r)
       \<and> (truthy_opt (payload_field v ''message'') \<longrightarrow>
            Some (message r) = payload_field v ''message'')
       \<and> (\<not> truthy_opt (payload_field v ''message'') \<and> truthy_opt (payload_field v ''text'') \<longrightarrow>
            Some (message r) = payload_field v ''text'')
       \<and> (\<not> truthy_opt (payload_field v ''message'') \<and> \<not> truthy_opt (payload_field v ''text'') \<longrightarrow>
            message r = JStr (JSON_stringify v))
       \<and> (\<forall>c. webhooksCollection srv = Some c \<and> faults w (InsertOne (fst c) (snd c)) = None \<longrightarrow>
            docs (coll_or_empty (snd (handleWebhook srv req w)) c) =
              docs (coll_or_empty w c) @ [r\<lparr>rec_id := Some (oid_counter w)\<rparr>])
       \<and> field (fst (handleWebhook srv req w)) ''message''
           = Some (RStr ''Webhook received and processed'')"
proof -
  let ?w1 = "log_request req w"
  obtain r where r: "requestRecord req ?w1 = Inr r"
    and m: "extract_message (Some v) = Inr (message r)"
    using requestRecord_payload [OF assms, of ?w1] by auto
  have t: "truthy (message r)"
    by (rule extract_message_truthy [OF m])
  have e: "message r =
      (if truthy_opt (payload_field v ''message'') then the (payload_field v ''message'')
       else if truthy_opt (payload_field v ''text'') then the (payload_field v ''text'')
       else JStr (JSON_stringify v))"
    using m extract_message_payload [OF assms(2)] by simp
  have stored: "docs (coll_or_empty (snd (handleWebhook srv req w)) c) =
      docs (coll_or_empty w c) @ [r\<lparr>rec_id := Some (oid_counter w)\<rparr>]"
    if "webhooksCollection srv = Some c" "faults w (InsertOne (fst c) (snd c)) = None" for c
  proof -
    have f: "faults ?w1 (InsertOne (fst c) (snd c)) = None"
      using that(2) by (simp add: log_request_sel)
    show ?thesis
      by (simp add: handleWebhook_success(2) [OF r] coll_or_empty_def
            save_insert_ok(2) [OF that(1) f requestRecord_rec_id [OF r]] log_request_sel)
  qed
  have resp: "field (fst (handleWebhook srv req w)) ''message''
      = Some (RStr ''Webhook received and processed'')"
    by (simp add: handleWebhook_success(1) [OF r] respond_success_fields)
  show ?thesis
    using r t e stored resp by (auto simp: truthy_opt_Some)
qed

theorem derived_message_first_truthy_witness:
  "body (sample_request (Some (JObj [(''message'', JStr ''hi'')]))) = Some (JObj [(''message'', JStr ''hi'')])
   \<and> JObj [(''message'', JStr ''hi'')] \<noteq> JNull
   \<and> truthy_opt (payload_field (JObj [(''message'', JStr ''hi'')]) ''message'')
   \<and> (\<exists>r. requestRecord (sample_request (Some (JObj [(''message'', JStr ''hi'')])))
              (log_request (sample_request (Some (JObj [(''message'', JStr ''hi'')]))) connected_world)
            = Inr r \<and> message r = JStr ''hi'')
   \<and> field (fst (handleWebhook connected_server
                (sample_request (Some (JObj [(''message'', JStr ''hi'')]))) connected_world)) ''message''
       = Some (RStr ''Webhook received and processed'')"
  using derived_message_first_truthy [of "sample_request (Some (JObj [(''message'', JStr ''hi'')]))"
      "JObj [(''message'', JStr ''hi'')]" connected_world connected_server]
  by (auto simp: sample_request_def payload_field_def)

text \<open>
  The claim as stated fails at the payload \<open>{"message": "", "text": "hi"}\<close>: the
  \<open>message\<close> property is present, yet the stored message is \<open>hi\<close>, and the response
  returns neither of them.
\<close>

theorem derived_message_counterexample:
  "payload_field (JObj [(''message'', JStr ''''), (''text'', JStr ''hi'')]) ''message'' = Some (JStr '''')
   \<and> extract_message (Some (JObj [(''message'', JStr ''''), (''text'', JStr ''hi'')])) = Inr (JStr ''hi'')
   \<and> map message (docs (coll_or_empty (snd (handleWebhook connected_server
        (sample_request (Some (JObj [(''message'', JStr ''''), (''text'', JStr ''hi'')])))
        connected_world)) (''app'', ''gpt-webhook-requests''))) = [JStr ''hi'']
   \<and> field (fst (handleWebhook connected_server
        (sample_request (Some (JObj [(''message'', JStr ''''), (''text'', JStr ''hi'')])))
        connected_world)) ''message'' = Some (RStr ''Webhook received and processed'')"
  by (simp add: model_defs sample_defs payload_field_def Let_def)

subsection \<open>The same payload twice\<close>

text \<open>
  Claim C8, as the code has it. With a collection handle and both inserts succeeding, two
  requests with the same payload (the second one handled when the clock reads \<open>t2\<close>)
  add two records to the collection. They carry distinct identifiers, which are the \<open>id\<close>
  of the two responses, the same message, user information and request snapshot, and each
  the clock reading at its own receipt: the two timestamps differ exactly when the two
  readings differ. Nothing is deduplicated.
\<close>

theorem two_requests_two_records:
  assumes c: "webhooksCollection srv = Some c"
    and f: "faults w (InsertOne (fst c) (snd c)) = None"
    and b: "body req = Some v" "v \<noteq> JNull"
    and w1: "w1 = snd (handleWebhook srv req w)"
    and w2: "w2 = snd (handleWebhook srv req (w1\<lparr>clock := t2\<rparr>))"
  shows "\<exists>r1 r2. docs (coll_or_empty w2 c) = docs (coll_or_empty w c) @ [r1, r2]
       \<and> rec_id r1 = Some (oid_counter w) \<and> rec_id r2 = Some (Suc (oid_counter w))
       \<and> rec_id r1 \<noteq> rec_id r2
       \<and> field (fst (handleWebhook srv req w)) ''id'' = Some (RId (oid_counter w))
       \<and> field (fst (handleWebhook srv req (w1\<lparr>clock := t2\<rparr>))) ''id''
           = Some (RId (Suc (oid_counter w)))
       \<and> message r1 = message r2 \<and> userInfo r1 = userInfo r2 \<and> fullRequest r1 = fullRequest r2
       \<and> timestamp r1 = clock w \<and> timestamp r2 = t2
       \<and> (timestamp r1 = timestamp r2) = (clock w = t2)"
proof -
  obtain r where r: "requestRecord req (log_request req w) = Inr r" and tr: "timestamp r = clock w"
    using requestRecord_payload [OF b, of "log_request req w"] by (auto simp: log_request_sel)
  let ?v = "w1\<lparr>clock := t2\<rparr>"
  have r2: "requestRecord req (log_request req ?v) = Inr (r\<lparr>timestamp := t2\<rparr>)"
    using requestRecord_clock [OF r, of "log_request req ?v"] by (simp add: log_request_sel)
  note h1 = handleWebhook_stores [OF c f r]
  have f2: "faults ?v (InsertOne (fst c) (snd c)) = None"
    using f by (simp add: w1 h1(4))
  note h2 = handleWebhook_stores [OF c f2 r2]
  have cnt: "oid_counter ?v = Suc (oid_counter w)"
    by (simp add: w1 h1(3))
  have d1: "docs (coll_or_empty ?v c) = docs (coll_or_empty w c) @ [r\<lparr>rec_id := Some (oid_counter w)\<rparr>]"
    by (simp add: coll_or_empty_def w1 h1(2))
  have d2: "docs (coll_or_empty w2 c) =
      docs (coll_or_empty w c) @ [r\<lparr>rec_id := Some (oid_counter w)\<rparr>,
                                 r\<lparr>timestamp := t2, rec_id := Some (Suc (oid_counter w))\<rparr>]"
    using d1 by (simp add: w2 h2(2) cnt coll_or_empty_def)
  show ?thesis
    apply (rule exI [of _ "r\<lparr>rec_id := Some (oid_counter w)\<rparr>"])
    apply (rule exI [of _ "r\<lparr>timestamp := t2, rec_id := Some (Suc (oid_counter w))\<rparr>"])
    using d2 h1(1) h2(1) cnt tr by simp
qed

theorem two_requests_two_records_witness:
  "webhooksCollection connected_server = Some (''app'', ''gpt-webhook-requests'')
   \<and> faults connected_world (InsertOne ''app'' ''gpt-webhook-requests'') = None
   \<and> map rec_id (docs (coll_or_empty
        (snd (handleWebhook connected_server (sample_request (Some (JObj [(''text'', JStr ''hi'')])))
           ((snd (handleWebhook connected_server
                   (sample_request (Some (JObj [(''text'', JStr ''hi'')]))) connected_world))
            \<lparr>clock := 1700000000250\<rparr>)))
        (''app'', ''gpt-webhook-requests''))) = [Some 0, Some 1]
   \<and> map timestamp (docs (coll_or_empty
        (snd (handleWebhook connected_server (sample_request (Some (JObj [(''text'', JStr ''hi'')])))
           ((snd (handleWebhook connected_server
                   (sample_request (Some (JObj [(''text'', JStr ''hi'')]))) connected_world))
            \<lparr>clock := 1700000000250\<rparr>)))
        (''app'', ''gpt-webhook-requests''))) = [1700000000000, 1700000000250]"
proof -
  have c: "webhooksCollection connected_server = Some (''app'', ''gpt-webhook-requests'')"
    and f: "faults connected_world (InsertOne ''app'' ''gpt-webhook-requests'') = None"
    and d: "docs (coll_or_empty connected_world (''app'', ''gpt-webhook-requests'')) = []"
    and n: "oid_counter connected_world = 0" and t: "clock connected_world = 1700000000000"
    by (simp_all add: model_defs sample_defs Let_def)
  show ?thesis
    using c f d n t
      two_requests_two_records [of connected_server "(''app'', ''gpt-webhook-requests'')"
        connected_world "sample_request (Some (JObj [(''text'', JStr ''hi'')]))"
        "JObj [(''text'', JStr ''hi'')]" _ _ 1700000000250, OF _ _ _ _ refl refl]
    by (auto simp: sample_request_def)
qed

text \<open>
  The claim as stated fails when both requests are handled within the same millisecond:
  the two records have distinct identifiers and equal timestamps.
\<close>

theorem same_instant_same_timestamp:
  "map timestamp (docs (coll_or_empty
        (snd (handleWebhook connected_server (sample_request (Some (JObj [(''text'', JStr ''hi'')])))
           (snd (handleWebhook connected_server
                   (sample_request (Some (JObj [(''text'', JStr ''hi'')]))) connected_world))))
        (''app'', ''gpt-webhook-requests''))) = [1700000000000, 1700000000000]
   \<and> map rec_id (docs (coll_or_empty
        (snd (handleWebhook connected_server (sample_request (Some (JObj [(''text'', JStr ''hi'')])))
           (snd (handleWebhook connected_server
                   (sample_request (Some (JObj [(''text'', JStr ''hi'')]))) connected_world))))
        (''app'', ''gpt-webhook-requests''))) = [Some 0, Some 1]"
  by (simp add: model_defs sample_defs Let_def)

subsection \<open>Entering the Connected state\<close>

lemma initializeCollections_absent:
  assumes d: "db srv = Some d" and f: "\<forall>c. faults w c = None"
    and a: "colls w (d, appPrefix @ ''-requests'') = None"
  shows "fst (initializeCollections srv w) = None"
    and "fst (snd (initializeCollections srv w)) = srv\<lparr>webhooksCollection := Some (d, appPrefix @ ''-requests'')\<rparr>"
    and "colls (snd (snd (initializeCollections srv w))) =
           (colls w)((d, appPrefix @ ''-requests'') \<mapsto>
              \<lparr>indexes = [[(''timestamp'', - 1)], [(''userInfo.id'', 1)]], docs = []\<rparr>)"
  using assms
  by (simp_all add: initializeCollections_def listCollections_def createCollection_def
        createIndex_def driver_def console_log_def coll_or_empty_def empty_collection_def Let_def)

lemma initializeCollections_present:
  assumes d: "db srv = Some d" and f: "\<forall>c. faults w c = None"
    and a: "colls w (d, appPrefix @ ''-requests'') = Some x"
  shows "fst (initializeCollections srv w) = None"
    and "fst (snd (initializeCollections srv w)) = srv\<lparr>webhooksCollection := Some (d, appPrefix @ ''-requests'')\<rparr>"
    and "colls (snd (snd (initializeCollections srv w))) = colls w"
  using assms
  by (simp_all add: initializeCollections_def listCollections_def driver_def console_log_def Let_def)

lemma client_db_eq:
  "client_db name w =
     (case db_name_error name of Some e \<Rightarrow> Some e | None \<Rightarrow> faults w (DbHandle name),
      w\<lparr>driver_calls := driver_calls w @ [DbHandle name]\<rparr>)"
  by (simp add: client_db_def driver_def split: option.splits)

text \<open>The world in which \<open>initializeCollections\<close> starts, once the \<open>Db\<close> handle is there.\<close>

lemma connectToMongoDB_reaches_init:
  assumes u: "mongoUrl srv = Some u" "u \<noteq> []"
    and f: "faults w (NewClient \<lparr>c_url = u, c_auth = mongoOptions srv\<rparr>) = None"
           "faults w (Connect \<lparr>c_url = u, c_auth = mongoOptions srv\<rparr>) = None"
    and d: "db_name_error (dbName u) = None" "faults w (DbHandle (dbName u)) = None"
    and w4: "w4 = w\<lparr>console := console w @ Log [LStr ''Connecting to MongoDB...'']
                       # (if mongoOptions srv \<noteq> None
                          then [Log [LStr ''Using MongoDB authentication'']] else []),
                   driver_calls := driver_calls w
                       @ [NewClient \<lparr>c_url = u, c_auth = mongoOptions srv\<rparr>,
                          Connect \<lparr>c_url = u, c_auth = mongoOptions srv\<rparr>,
                          DbHandle (dbName u)]\<rparr>"
  shows "connectToMongoDB srv w =
           (case initializeCollections
                   (srv\<lparr>client := Some \<lparr>c_url = u, c_auth = mongoOptions srv\<rparr>,
                        db := Some (dbName u)\<rparr>) w4 of
              (Some e, srv3, w5) \<Rightarrow> connect_failed e srv3 w5
            | (None, srv3, w5) \<Rightarrow>
                (srv3, console_log
                         [LStr (''Successfully connected to MongoDB database: '' @ dbName u)]
                         w5))"
proof (cases "mongoOptions srv")
  case None
  show ?thesis
    using u f d None
    by (simp add: w4 connectToMongoDB_def driver_def client_db_eq Let_def console_log_def)
next
  case (Some a)
  show ?thesis
    using u f d Some
    by (simp add: w4 connectToMongoDB_def driver_def client_db_eq Let_def console_log_def)
qed

lemma connectToMongoDB_connected:
  assumes u: "mongoUrl srv = Some u" "u \<noteq> []" and f: "\<forall>c. faults w c = None"
    and d: "db_name_error (dbName u) = None"
  shows "fst (connectToMongoDB srv w) =
           srv\<lparr>client := Some \<lparr>c_url = u, c_auth = mongoOptions srv\<rparr>, db := Some (dbName u),
               webhooksCollection := Some (dbName u, appPrefix @ ''-requests'')\<rparr>"
    and "colls w (dbName u, appPrefix @ ''-requests'') = None \<Longrightarrow>
         colls (snd (connectToMongoDB srv w)) =
           (colls w)((dbName u, appPrefix @ ''-requests'') \<mapsto>
              \<lparr>indexes = [[(''timestamp'', - 1)], [(''userInfo.id'', 1)]], docs = []\<rparr>)"
    and "colls w (dbName u, appPrefix @ ''-requests'') \<noteq> None \<Longrightarrow>
         colls (snd (connectToMongoDB srv w)) = colls w"
proof -
  let ?srv2 = "srv\<lparr>client := Some \<lparr>c_url = u, c_auth = mongoOptions srv\<rparr>, db := Some (dbName u)\<rparr>"
  let ?k = "(dbName u, appPrefix @ ''-requests'')"
  define w4 where
    "w4 = w\<lparr>console := console w @ Log [LStr ''Connecting to MongoDB...'']
                  # (if mongoOptions srv \<noteq> None
                     then [Log [LStr ''Using MongoDB authentication'']] else []),
              driver_calls := driver_calls w
                  @ [NewClient \<lparr>c_url = u, c_auth = mongoOptions srv\<rparr>,
                     Connect \<lparr>c_url = u, c_auth = mongoOptions srv\<rparr>,
                     DbHandle (dbName u)]\<rparr>"
  have w4: "faults w4 = faults w" "colls w4 = colls w"
    by (simp_all add: w4_def)
  have eq: "connectToMongoDB srv w =
               (case initializeCollections ?srv2 w4 of
                  (Some e, srv3, w5) \<Rightarrow> connect_failed e srv3 w5
                | (None, srv3, w5) \<Rightarrow>
                    (srv3, console_log
                             [LStr (''Successfully connected to MongoDB database: '' @ dbName u)]
                             w5))"
    using f by (intro connectToMongoDB_reaches_init [OF u _ _ d _ w4_def]) simp_all
  have d2: "db ?srv2 = Some (dbName u)" by simp
  have f4: "\<forall>c. faults w4 c = None" using f w4(1) by simp
  have i: "fst (initializeCollections ?srv2 w4) = None"
    using initializeCollections_absent(1) [OF d2 f4] initializeCollections_present(1) [OF d2 f4]
    by (cases "colls w4 ?k") auto
  have s: "fst (snd (initializeCollections ?srv2 w4)) = ?srv2\<lparr>webhooksCollection := Some ?k\<rparr>"
    using initializeCollections_absent(2) [OF d2 f4] initializeCollections_present(2) [OF d2 f4]
    by (cases "colls w4 ?k") auto
  have eq': "connectToMongoDB srv w =
      (fst (snd (initializeCollections ?srv2 w4)),
       console_log [LStr (''Successfully connected to MongoDB database: '' @ dbName u)]
         (snd (snd (initializeCollections ?srv2 w4))))"
  proof (cases "initializeCollections ?srv2 w4")
    case (fields e srv3 w5)
    with i have "e = None" by simp
    then show ?thesis by (simp add: eq fields)
  qed
  show "fst (connectToMongoDB srv w) =
           srv\<lparr>client := Some \<lparr>c_url = u, c_auth = mongoOptions srv\<rparr>, db := Some (dbName u),
               webhooksCollection := Some ?k\<rparr>"
    by (simp add: eq' s)
  show "colls (snd (connectToMongoDB srv w)) =
           (colls w)(?k \<mapsto> \<lparr>indexes = [[(''timestamp'', - 1)], [(''userInfo.id'', 1)]], docs = []\<rparr>)"
    if "colls w ?k = None"
    using that initializeCollections_absent(3) [OF d2 f4]
    by (simp add: eq' w4(2) console_log_def)
  show "colls (snd (connectToMongoDB srv w)) = colls w" if present: "colls w ?k \<noteq> None"
  proof -
    obtain x where "colls w4 ?k = Some x"
      using present w4(2) by auto
    from initializeCollections_present(3) [OF d2 f4 this]
    show ?thesis by (simp add: eq' w4(2) console_log_def)
  qed
qed

text \<open>With a name that has a dot the \<open>Db\<close> handle is never there: \<open>db\<close> stays as it was.\<close>

lemma connectToMongoDB_bad_name:
  assumes "mongoUrl srv = Some u" "u \<noteq> []" "db_name_error (dbName u) = Some e"
  shows "db (fst (connectToMongoDB srv w)) = db srv"
    and "webhooksCollection (fst (connectToMongoDB srv w)) = webhooksCollection srv"
  using assms
  by (simp_all add: connectToMongoDB_def driver_def client_db_eq Let_def connect_failed_def
        split: option.splits)

text \<open>The variant of \<open>src/index.ts\<close>: the fixed names, and nothing done to the store.\<close>

lemma connectToMongoDB_index_ts_connected:
  assumes "mongoUrl srv = Some u" "u \<noteq> []" "\<forall>c. faults w c = None"
  shows "webhooksCollection (fst (connectToMongoDB_index_ts srv w)) = Some (''webhook-server'', ''webhooks'')"
    and "db (fst (connectToMongoDB_index_ts srv w)) = Some ''webhook-server''"
    and "colls (snd (connectToMongoDB_index_ts srv w)) = colls w"
  using assms
  by (simp_all add: connectToMongoDB_index_ts_def driver_def client_db_eq db_name_error_def
        Let_def console_log_def)

lemma handleWebhook_records:
  assumes c: "webhooksCollection srv = Some k"
    and b: "body req = Some v" "v \<noteq> JNull"
    and f: "faults w (InsertOne (fst k) (snd k)) = None"
  shows "\<exists>r. colls (snd (handleWebhook srv req w)) =
               (colls w)(k \<mapsto> (coll_or_empty w k)\<lparr>docs := docs (coll_or_empty w k) @ [r]\<rparr>)
           \<and> rec_id r = Some (oid_counter w) \<and> timestamp r = clock w"
proof -
  obtain r where r: "requestRecord req (log_request req w) = Inr r" and t: "timestamp r = clock w"
    using requestRecord_payload [OF b, of "log_request req w"] by (auto simp: log_request_sel)
  show ?thesis
    using handleWebhook_stores(2) [OF c f r] t
    by (intro exI [of _ "r\<lparr>rec_id := Some (oid_counter w)\<rparr>"]) simp
qed

text \<open>
  Claim C7, as the code has it. In the server with the application prefix, when the
  connection string is set, every driver call succeeds and the driver accepts the resolved
  database name, the server holds the handle of the collection named by the prefix plus
  \<open>-requests\<close> in that database. If that collection was absent it is created with the two
  indexes, descending on \<open>timestamp\<close> and ascending on \<open>userInfo.id\<close>; if it was there
  already the store is left as it is, whatever its indexes are. In the variant of
  \<open>src/index.ts\<close> the handle is that of the fixed collection \<open>webhooks\<close> in the database
  \<open>webhook-server\<close>, and nothing is created. In both, every event that is then inserted
  goes into exactly the collection of the handle: no other collection changes.
\<close>

theorem connected_collection_setup:
  assumes u: "mongoUrl srv = Some u" "u \<noteq> []"
    and f: "\<forall>c. faults w c = None"
    and d: "db_name_error (dbName u) = None"
    and srv': "srv' = fst (connectToMongoDB srv w)"
    and w': "w' = snd (connectToMongoDB srv w)"
    and k: "k = (dbName u, appPrefix @ ''-requests'')"
    and srv1: "srv1 = fst (connectToMongoDB_index_ts srv w)"
    and w1: "w1 = snd (connectToMongoDB_index_ts srv w)"
    and k1: "k1 = (''webhook-server'', ''webhooks'')"
  shows "db srv' = Some (dbName u) \<and> webhooksCollection srv' = Some k
       \<and> (colls w k = None \<longrightarrow>
            colls w' = (colls w)(k \<mapsto>
              \<lparr>indexes = [[(''timestamp'', - 1)], [(''userInfo.id'', 1)]], docs = []\<rparr>))
       \<and> (colls w k \<noteq> None \<longrightarrow> colls w' = colls w)
       \<and> (\<forall>req v w2. body req = Some v \<and> v \<noteq> JNull
              \<and> faults w2 (InsertOne (fst k) (snd k)) = None \<longrightarrow>
            (\<exists>r. colls (snd (handleWebhook srv' req w2)) =
                    (colls w2)(k \<mapsto> (coll_or_empty w2 k)\<lparr>docs := docs (coll_or_empty w2 k) @ [r]\<rparr>)
                \<and> rec_id r = Some (oid_counter w2) \<and> timestamp r = clock w2))
       \<and> db srv1 = Some ''webhook-server'' \<and> webhooksCollection srv1 = Some k1
       \<and> colls w1 = colls w
       \<and> (\<forall>req v w2. body req = Some v \<and> v \<noteq> JNull
              \<and> faults w2 (InsertOne (fst k1) (snd k1)) = None \<longrightarrow>
            (\<exists>r. colls (snd (handleWebhook srv1 req w2)) =
                    (colls w2)(k1 \<mapsto> (coll_or_empty w2 k1)\<lparr>docs := docs (coll_or_empty w2 k1) @ [r]\<rparr>)
                \<and> rec_id r = Some (oid_counter w2) \<and> timestamp r = clock w2))"
proof -
  note c = connectToMongoDB_connected [OF u f d]
  have h: "webhooksCollection srv' = Some k" "db srv' = Some (dbName u)"
    by (simp_all add: srv' k c(1))
  have a: "colls w' = (colls w)(k \<mapsto>
              \<lparr>indexes = [[(''timestamp'', - 1)], [(''userInfo.id'', 1)]], docs = []\<rparr>)"
    if "colls w k = None"
    using that c(2) by (simp add: w' k)
  have p: "colls w' = colls w" if "colls w k \<noteq> None"
    using that c(3) by (simp add: w' k)
  note i = connectToMongoDB_index_ts_connected [OF u f]
  have h1: "webhooksCollection srv1 = Some k1" "db srv1 = Some ''webhook-server''"
    "colls w1 = colls w"
    by (simp_all add: srv1 w1 k1 i)
  have first: "db srv' = Some (dbName u) \<and> webhooksCollection srv' = Some k
       \<and> (colls w k = None \<longrightarrow>
            colls w' = (colls w)(k \<mapsto>
              \<lparr>indexes = [[(''timestamp'', - 1)], [(''userInfo.id'', 1)]], docs = []\<rparr>))
       \<and> (colls w k \<noteq> None \<longrightarrow> colls w' = colls w)
       \<and> (\<forall>req v w2. body req = Some v \<and> v \<noteq> JNull
              \<and> faults w2 (InsertOne (fst k) (snd k)) = None \<longrightarrow>
            (\<exists>r. colls (snd (handleWebhook srv' req w2)) =
                    (colls w2)(k \<mapsto> (coll_or_empty w2 k)\<lparr>docs := docs (coll_or_empty w2 k) @ [r]\<rparr>)
                \<and> rec_id r = Some (oid_counter w2) \<and> timestamp r = clock w2))"
    using h a p handleWebhook_records [OF h(1)] by blast
  have second: "db srv1 = Some ''webhook-server'' \<and> webhooksCollection srv1 = Some k1
       \<and> colls w1 = colls w
       \<and> (\<forall>req v w2. body req = Some v \<and> v \<noteq> JNull
              \<and> faults w2 (InsertOne (fst k1) (snd k1)) = None \<longrightarrow>
            (\<exists>r. colls (snd (handleWebhook srv1 req w2)) =
                    (colls w2)(k1 \<mapsto> (coll_or_empty w2 k1)\<lparr>docs := docs (coll_or_empty w2 k1) @ [r]\<rparr>)
                \<and> rec_id r = Some (oid_counter w2) \<and> timestamp r = clock w2))"
    using h1 handleWebhook_records [OF h1(1)] by blast
  show ?thesis
    using first second by blast
qed

theorem connected_collection_setup_witness:
  "mongoUrl (WebhookServer configured_world) = Some ''mongodb://localhost:27017/app''
   \<and> (\<forall>c. faults configured_world c = None)
   \<and> db_name_error (dbName ''mongodb://localhost:27017/app'') = None
   \<and> colls configured_world (''app'', ''gpt-webhook-requests'') = None
   \<and> webhooksCollection connected_server = Some (''app'', ''gpt-webhook-requests'')
   \<and> colls connected_world (''app'', ''gpt-webhook-requests'') =
       Some \<lparr>indexes = [[(''timestamp'', - 1)], [(''userInfo.id'', 1)]], docs = []\<rparr>
   \<and> webhooksCollection (fst (connectToMongoDB_index_ts (WebhookServer configured_world)
                                 configured_world)) = Some (''webhook-server'', ''webhooks'')"
proof -
  have m: "mongoUrl (WebhookServer configured_world) = Some ''mongodb://localhost:27017/app''"
    and f: "\<forall>c. faults configured_world c = None"
    and a: "colls configured_world (''app'', ''gpt-webhook-requests'') = None"
    and d: "dbName ''mongodb://localhost:27017/app'' = ''app''"
    by (simp_all add: WebhookServer_def sample_defs dbName_def)
  have e: "db_name_error (dbName ''mongodb://localhost:27017/app'') = None"
    by (simp add: d db_name_error_def)
  have s: "connected_server = fst (connectToMongoDB (WebhookServer configured_world) configured_world)"
    and w: "colls connected_world = colls (snd (connectToMongoDB (WebhookServer configured_world) configured_world))"
    by (simp_all add: connected_server_def connected_world_def start_def split: prod.splits)
  show ?thesis
    using m f a e
      connected_collection_setup [OF m _ f e s refl refl refl refl refl]
    by (simp add: d w appPrefix_def)
qed

text \<open>
  The claim as stated, that the two indexes are created whenever they are absent, fails
  for a collection that exists without them: the server enters the Connected state and
  the collection still has no index.
\<close>

theorem existing_collection_gets_no_indexes:
  "webhooksCollection (fst (start (WebhookServer existing_collection_world) existing_collection_world))
     = Some (''app'', ''gpt-webhook-requests'')
   \<and> last (console (snd (start (WebhookServer existing_collection_world) existing_collection_world)))
       = Log [LStr ''Successfully connected to MongoDB database: app'']
   \<and> colls (snd (start (WebhookServer existing_collection_world) existing_collection_world))
        (''app'', ''gpt-webhook-requests'') = Some \<lparr>indexes = [], docs = []\<rparr>"
  by (simp add: model_defs sample_defs Let_def)

subsection \<open>The credential pair\<close>

lemma initializeCollections_keeps:
  "client (fst (snd (initializeCollections srv w))) = client srv"
  "x \<in> set (driver_calls w) \<Longrightarrow> x \<in> set (driver_calls (snd (snd (initializeCollections srv w))))"
  by (auto simp: initializeCollections_def init_failed_def listCollections_def
        createCollection_def createIndex_def driver_def console_log_def console_error_def Let_def
        split: option.splits prod.splits sum.splits if_splits)

lemma initializeCollections_credentials:
  "initializeCollections (srv\<lparr>mongoUsername := a, mongoPassword := b\<rparr>) w =
     (case initializeCollections srv w of
        (e, s, w') \<Rightarrow> (e, s\<lparr>mongoUsername := a, mongoPassword := b\<rparr>, w'))"
  by (auto simp: initializeCollections_def init_failed_def Let_def
        split: option.splits prod.splits sum.splits if_splits)

lemma connect_failed_sel:
  "fst (connect_failed e srv w) = srv"
  "driver_calls (snd (connect_failed e srv w)) = driver_calls w"
  by (simp_all add: connect_failed_def console_log_def console_error_def)

lemma connection_attempted:
  assumes u: "mongoUrl srv = Some u" "u \<noteq> []"
    and f: "faults w (NewClient \<lparr>c_url = u, c_auth = mongoOptions srv\<rparr>) = None"
  shows "client (fst (connectToMongoDB srv w)) = Some \<lparr>c_url = u, c_auth = mongoOptions srv\<rparr>"
    and "Connect \<lparr>c_url = u, c_auth = mongoOptions srv\<rparr>
           \<in> set (driver_calls (snd (connectToMongoDB srv w)))"
proof -
  let ?c = "\<lparr>c_url = u, c_auth = mongoOptions srv\<rparr>"
  let ?srv2 = "srv\<lparr>client := Some ?c, db := Some (dbName u)\<rparr>"
  consider (con) e where "faults w (Connect ?c) = Some e"
    | (name) e where "faults w (Connect ?c) = None" "db_name_error (dbName u) = Some e"
    | (handle) e where "faults w (Connect ?c) = None" "db_name_error (dbName u) = None"
        "faults w (DbHandle (dbName u)) = Some e"
    | (ok) "faults w (Connect ?c) = None" "db_name_error (dbName u) = None"
        "faults w (DbHandle (dbName u)) = None"
    by (cases "faults w (Connect ?c)"; cases "db_name_error (dbName u)";
        cases "faults w (DbHandle (dbName u))") auto
  then have "client (fst (connectToMongoDB srv w)) = Some ?c
      \<and> Connect ?c \<in> set (driver_calls (snd (connectToMongoDB srv w)))"
  proof cases
    case con
    then show ?thesis
      using u f
      by (simp add: connectToMongoDB_def driver_def Let_def console_log_def connect_failed_sel)
  next
    case name
    then show ?thesis
      using u f
      by (simp add: connectToMongoDB_def driver_def client_db_eq Let_def console_log_def
            connect_failed_sel)
  next
    case handle
    then show ?thesis
      using u f
      by (simp add: connectToMongoDB_def driver_def client_db_eq Let_def console_log_def
            connect_failed_sel)
  next
    case ok
    define w4 where
      "w4 = w\<lparr>console := console w @ Log [LStr ''Connecting to MongoDB...'']
                    # (if mongoOptions srv \<noteq> None
                       then [Log [LStr ''Using MongoDB authentication'']] else []),
                driver_calls := driver_calls w @ [NewClient ?c, Connect ?c, DbHandle (dbName u)]\<rparr>"
    have m: "Connect ?c \<in> set (driver_calls w4)"
      by (simp add: w4_def)
    note eq = connectToMongoDB_reaches_init [OF u f ok w4_def]
    show ?thesis
    proof (cases "initializeCollections ?srv2 w4")
      case (fields e srv3 w5)
      have "client srv3 = Some ?c"
        using initializeCollections_keeps(1) [of ?srv2 w4] by (simp add: fields)
      moreover have "Connect ?c \<in> set (driver_calls w5)"
        using initializeCollections_keeps(2) [OF m, of ?srv2] by (simp add: fields)
      ultimately show ?thesis
        by (cases e) (simp_all add: eq fields connect_failed_sel console_log_def)
    qed
  qed
  then show "client (fst (connectToMongoDB srv w)) = Some ?c"
    and "Connect ?c \<in> set (driver_calls (snd (connectToMongoDB srv w)))"
    by simp_all
qed

lemma connectToMongoDB_credentials_ignored:
  assumes o: "mongoOptions srv = None"
  shows "snd (connectToMongoDB (srv\<lparr>mongoUsername := None, mongoPassword := None\<rparr>) w)
           = snd (connectToMongoDB srv w)"
proof -
  let ?s0 = "srv\<lparr>mongoUsername := None, mongoPassword := None\<rparr>"
  have o0: "mongoOptions ?s0 = None"
    by (simp add: mongoOptions_def)
  show ?thesis
  proof (cases "truthy_str (mongoUrl srv)")
    case False
    then show ?thesis by (simp add: connectToMongoDB_def)
  next
    case True
    then obtain u where u: "mongoUrl srv = Some u" "u \<noteq> []"
      by (cases "mongoUrl srv") auto
    have u0: "mongoUrl ?s0 = Some u" using u(1) by simp
    let ?c = "\<lparr>c_url = u, c_auth = None :: (string \<times> string) option\<rparr>"
    let ?s2 = "srv\<lparr>client := Some ?c, db := Some (dbName u)\<rparr>"
    consider (new) e where "faults w (NewClient ?c) = Some e"
      | (con) e where "faults w (NewClient ?c) = None" "faults w (Connect ?c) = Some e"
      | (name) e where "faults w (NewClient ?c) = None" "faults w (Connect ?c) = None"
          "db_name_error (dbName u) = Some e"
      | (handle) e where "faults w (NewClient ?c) = None" "faults w (Connect ?c) = None"
          "db_name_error (dbName u) = None" "faults w (DbHandle (dbName u)) = Some e"
      | (ok) "faults w (NewClient ?c) = None" "faults w (Connect ?c) = None"
          "db_name_error (dbName u) = None" "faults w (DbHandle (dbName u)) = None"
      by (cases "faults w (NewClient ?c)"; cases "faults w (Connect ?c)";
          cases "db_name_error (dbName u)"; cases "faults w (DbHandle (dbName u))") auto
    then show ?thesis
    proof cases
      case new
      then show ?thesis
        using u o o0
        by (simp add: connectToMongoDB_def driver_def Let_def connect_failed_def console_log_def
              console_error_def)
    next
      case con
      then show ?thesis
        using u o o0
        by (simp add: connectToMongoDB_def driver_def Let_def connect_failed_def console_log_def
              console_error_def)
    next
      case name
      then show ?thesis
        using u o o0
        by (simp add: connectToMongoDB_def driver_def client_db_eq Let_def connect_failed_def
              console_log_def console_error_def)
    next
      case handle
      then show ?thesis
        using u o o0
        by (simp add: connectToMongoDB_def driver_def client_db_eq Let_def connect_failed_def
              console_log_def console_error_def)
    next
      case ok
      define w4 where
        "w4 = w\<lparr>console := console w @ Log [LStr ''Connecting to MongoDB...'']
                    # (if (None :: (string \<times> string) option) \<noteq> None
                       then [Log [LStr ''Using MongoDB authentication'']] else []),
                  driver_calls := driver_calls w @ [NewClient ?c, Connect ?c, DbHandle (dbName u)]\<rparr>"
      have e1: "connectToMongoDB srv w =
           (case initializeCollections ?s2 w4 of
              (Some e, srv3, w5) \<Rightarrow> connect_failed e srv3 w5
            | (None, srv3, w5) \<Rightarrow>
                (srv3, console_log
                         [LStr (''Successfully connected to MongoDB database: '' @ dbName u)]
                         w5))"
        using connectToMongoDB_reaches_init [OF u, of w w4] ok
        unfolding o w4_def by blast
      have s0: "?s0\<lparr>client := Some ?c, db := Some (dbName u)\<rparr>
                  = ?s2\<lparr>mongoUsername := None, mongoPassword := None\<rparr>"
        by (cases srv) simp
      have e0: "connectToMongoDB ?s0 w =
           (case initializeCollections (?s2\<lparr>mongoUsername := None, mongoPassword := None\<rparr>) w4 of
              (Some e, srv3, w5) \<Rightarrow> connect_failed e srv3 w5
            | (None, srv3, w5) \<Rightarrow>
                (srv3, console_log
                         [LStr (''Successfully connected to MongoDB database: '' @ dbName u)]
                         w5))"
        using connectToMongoDB_reaches_init [OF u0 u(2), of w w4] ok
        unfolding o0 w4_def s0 by blast
      show ?thesis
      proof (cases "initializeCollections ?s2 w4")
        case (fields e srv3 w5)
        have ic: "initializeCollections (?s2\<lparr>mongoUsername := None, mongoPassword := None\<rparr>) w4
                    = (e, srv3\<lparr>mongoUsername := None, mongoPassword := None\<rparr>, w5)"
          unfolding initializeCollections_credentials [where srv = ?s2] fields by simp
        show ?thesis
          unfolding e0 e1 ic fields
          by (cases e) (simp_all add: connect_failed_def)
      qed
    qed
  qed
qed

text \<open>
  Claim C10. With a connection string set (and the client constructed), the client is
  built with \<open>mongoOptions\<close> and \<open>connect\<close> is called on it. The options carry the
  credential pair only when both environment variables are set, and then it is that pair.
  When exactly one of the two is set there is no \<open>auth\<close>, and the console, the driver calls
  and the store end up exactly as if neither were set: nothing reports the ignored variable.
\<close>

theorem credentials_need_both:
  assumes srv: "srv = WebhookServer w"
    and u: "env w ''MONGO_URL'' = Some u" "u \<noteq> []"
    and f: "\<forall>c. faults w (NewClient c) = None"
  shows "client (fst (connectToMongoDB srv w)) = Some \<lparr>c_url = u, c_auth = mongoOptions srv\<rparr>
       \<and> Connect \<lparr>c_url = u, c_auth = mongoOptions srv\<rparr>
           \<in> set (driver_calls (snd (connectToMongoDB srv w)))
       \<and> (mongoOptions srv \<noteq> None \<longrightarrow>
            env w ''MONGO_INITDB_ROOT_USERNAME'' \<noteq> None
          \<and> env w ''MONGO_INITDB_ROOT_PASSWORD'' \<noteq> None
          \<and> mongoOptions srv = Some (the (env w ''MONGO_INITDB_ROOT_USERNAME''),
                                     the (env w ''MONGO_INITDB_ROOT_PASSWORD'')))
       \<and> ((env w ''MONGO_INITDB_ROOT_USERNAME'' = None)
             \<noteq> (env w ''MONGO_INITDB_ROOT_PASSWORD'' = None) \<longrightarrow>
            mongoOptions srv = None
          \<and> snd (connectToMongoDB (srv\<lparr>mongoUsername := None, mongoPassword := None\<rparr>) w)
              = snd (connectToMongoDB srv w))"
proof -
  have m: "mongoUrl srv = Some u"
    by (simp add: srv WebhookServer_def u(1))
  have f': "faults w (NewClient \<lparr>c_url = u, c_auth = mongoOptions srv\<rparr>) = None"
    using f by simp
  note a = connection_attempted [OF m u(2) f']
  have both: "env w ''MONGO_INITDB_ROOT_USERNAME'' \<noteq> None
          \<and> env w ''MONGO_INITDB_ROOT_PASSWORD'' \<noteq> None
          \<and> mongoOptions srv = Some (the (env w ''MONGO_INITDB_ROOT_USERNAME''),
                                     the (env w ''MONGO_INITDB_ROOT_PASSWORD''))"
    if "mongoOptions srv \<noteq> None"
    using that
    by (cases "env w ''MONGO_INITDB_ROOT_USERNAME''"; cases "env w ''MONGO_INITDB_ROOT_PASSWORD''")
       (simp_all add: srv WebhookServer_def mongoOptions_def split: if_splits)
  have one: "mongoOptions srv = None"
    if "(env w ''MONGO_INITDB_ROOT_USERNAME'' = None) \<noteq> (env w ''MONGO_INITDB_ROOT_PASSWORD'' = None)"
    using that by (auto simp: srv WebhookServer_def mongoOptions_def)
  have c3: "mongoOptions srv \<noteq> None \<longrightarrow>
            env w ''MONGO_INITDB_ROOT_USERNAME'' \<noteq> None
          \<and> env w ''MONGO_INITDB_ROOT_PASSWORD'' \<noteq> None
          \<and> mongoOptions srv = Some (the (env w ''MONGO_INITDB_ROOT_USERNAME''),
                                     the (env w ''MONGO_INITDB_ROOT_PASSWORD''))"
    using both by blast
  have c4: "(env w ''MONGO_INITDB_ROOT_USERNAME'' = None)
             \<noteq> (env w ''MONGO_INITDB_ROOT_PASSWORD'' = None) \<longrightarrow>
            mongoOptions srv = None
          \<and> snd (connectToMongoDB (srv\<lparr>mongoUsername := None, mongoPassword := None\<rparr>) w)
              = snd (connectToMongoDB srv w)"
    using one connectToMongoDB_credentials_ignored [of srv w] by blast
  show ?thesis
    using a(1) a(2) c3 c4 by blast
qed

theorem credentials_need_both_witness:
  "env username_only_world ''MONGO_URL'' = Some ''mongodb://localhost:27017/app''
   \<and> (\<forall>c. faults username_only_world (NewClient c) = None)
   \<and> env username_only_world ''MONGO_INITDB_ROOT_USERNAME'' = Some ''root''
   \<and> env username_only_world ''MONGO_INITDB_ROOT_PASSWORD'' = None
   \<and> client (fst (connectToMongoDB (WebhookServer username_only_world) username_only_world))
       = Some \<lparr>c_url = ''mongodb://localhost:27017/app'', c_auth = None\<rparr>
   \<and> Connect \<lparr>c_url = ''mongodb://localhost:27017/app'', c_auth = None\<rparr>
       \<in> set (driver_calls (snd (connectToMongoDB (WebhookServer username_only_world)
                                   username_only_world)))"
proof -
  have e: "env username_only_world ''MONGO_URL'' = Some ''mongodb://localhost:27017/app''"
    and f: "\<forall>c. faults username_only_world (NewClient c) = None"
    and n: "env username_only_world ''MONGO_INITDB_ROOT_USERNAME'' = Some ''root''"
    and p: "env username_only_world ''MONGO_INITDB_ROOT_PASSWORD'' = None"
    by (simp_all add: sample_defs)
  have o: "mongoOptions (WebhookServer username_only_world) = None"
    by (simp add: mongoOptions_def WebhookServer_def p)
  show ?thesis
    using e f n p credentials_need_both [OF refl e _ f]
    by (simp add: o)
qed

end
